theory Spec2Isabelle
  imports Main "HOL-Library.Sublist"
begin

section \<open>Protocol values\<close>

text \<open>
  The gateway's chat handlers (\<^verbatim>\<open>src/gateway/server-methods/chat.ts\<close>) answer a request
  by one call of \<^verbatim>\<open>respond(ok, payload, error, meta)\<close>. Every handler path calls it exactly
  once, so a handler is modelled as a function that returns the response together with the
  updated gateway state.
\<close>

datatype error_code = INVALID_REQUEST | UNAVAILABLE

text \<open>\<^verbatim>\<open>errorShape(code, message)\<close> builds \<^verbatim>\<open>{code, message}\<close>.\<close>

datatype error_shape = errorShape error_code string

text \<open>
  The outcome of the schema validator of a method: \<open>Invalid errs\<close> when the validator
  returns false (\<open>errs\<close> is the text of \<^verbatim>\<open>formatValidationErrors\<close>), \<open>Valid p\<close> with
  the typed parameters otherwise.
\<close>

datatype 'a validated = Invalid string | Valid 'a

text \<open>The "chat" event of an aborted run: \<^verbatim>\<open>{runId, sessionKey, seq, state}\<close>.\<close>

record chat_event =
  ev_runId :: string
  ev_sessionKey :: string
  ev_seq :: int
  ev_state :: string

text \<open>
  Response payloads:
  \<^item> chat.history: \<^verbatim>\<open>{sessionKey, sessionId, messages, thinkingLevel}\<close>;
  \<^item> chat.abort: \<^verbatim>\<open>{ok, aborted}\<close>;
  \<^item> chat.send: \<^verbatim>\<open>{runId, status}\<close> or \<^verbatim>\<open>{runId, status, summary}\<close>.
\<close>

datatype 'msg payload =
    HistoryPayload string "string option" "'msg list" string
  | AbortPayload bool bool
  | RunPayload string string "string option"

text \<open>
  The fourth argument of \<^verbatim>\<open>respond\<close>: \<^verbatim>\<open>{cached: true}\<close>, \<^verbatim>\<open>{runId}\<close> or
  \<^verbatim>\<open>{runId, error}\<close>.
\<close>

datatype meta = Cached | RunMeta string "string option"

datatype 'msg response =
  Response bool "'msg payload option" "error_shape option" "meta option"

section \<open>Sessions\<close>

record SessionEntry =
  sessionId :: string
  updatedAt :: int
  thinkingLevel :: "string option"
  verboseLevel :: "string option"
  reasoningLevel :: "string option"
  systemSent :: "bool option"
  sendPolicy :: "string option"
  lastProvider :: "string option"
  lastTo :: "string option"
  provider :: "string option"
  chatType :: "string option"

type_synonym session_store = "string \<rightharpoonup> SessionEntry"

text \<open>The result of \<^verbatim>\<open>loadSessionEntry(sessionKey)\<close>: \<^verbatim>\<open>{cfg, storePath, store, entry}\<close>.\<close>

record 'cfg loaded =
  ld_cfg :: 'cfg
  ld_storePath :: string
  ld_store :: "session_store option"
  ld_entry :: "SessionEntry option"

section \<open>Gateway state\<close>

text \<open>The value of \<^verbatim>\<open>context.chatAbortControllers\<close> for a run. The controller is a
  reference: the executor holds the same object through its signal.\<close>

record abort_entry =
  controller :: nat
  ae_sessionId :: string
  ae_sessionKey :: string

record 'msg dedupe_entry =
  ts :: int
  ok :: bool
  payload :: "'msg payload option"
  error :: "error_shape option"

record chat_run_entry =
  cr_sessionKey :: string
  cr_clientRunId :: string

text \<open>The options object passed to \<^verbatim>\<open>agentCommand\<close>.\<close>

record agent_opts =
  ao_message :: string
  ao_sessionId :: string
  ao_sessionKey :: string
  ao_runId :: string
  ao_thinking :: "string option"
  ao_deliver :: "bool option"
  ao_timeout :: string
  ao_messageProvider :: string
  ao_abortSignal :: nat

text \<open>
  Calls that leave the handler (disk, executor, observers), in the order they are made.
\<close>

datatype effect =
    LoadSessionEntry string
  | ReadSessionMessages string string
  | LoadGatewayModelCatalog
  | SaveSessionStore string session_store
  | AgentCommand agent_opts
  | ControllerAbort nat
  | Broadcast string chat_event
  | BridgeSendToSession string string chat_event

text \<open>
  The gateway: the maps of the request context, the abort controllers created so far
  (\<open>aborted\<close> holds those whose signal has fired), the run-context side table, the
  session-store documents on disk, the configuration, and the log of effects.
\<close>

record ('cfg, 'msg) gateway =
  dedupe :: "string \<rightharpoonup> 'msg dedupe_entry"
  chatAbortControllers :: "string \<rightharpoonup> abort_entry"
  chatRunBuffers :: "string \<rightharpoonup> string"
  chatDeltaSentAt :: "string \<rightharpoonup> int"
  agentRunSeq :: "string \<rightharpoonup> int"
  chatRuns :: "(string \<times> chat_run_entry) list"
  runContexts :: "string \<rightharpoonup> string"
  nextController :: nat
  aborted :: "nat set"
  disk :: "string \<Rightarrow> session_store"
  config :: 'cfg
  configStorePath :: string
  effects :: "effect list"

definition emit :: "effect \<Rightarrow> ('cfg, 'msg) gateway \<Rightarrow> ('cfg, 'msg) gateway" where
  "emit e g = g\<lparr>effects := effects g @ [e]\<rparr>"

subsection \<open>Collaborators outside the handlers\<close>

text \<open>
  Modelled from the spec: \<^verbatim>\<open>context.addChatRun\<close> and \<^verbatim>\<open>context.removeChatRun\<close> are
  methods of the request context, defined outside the handlers' file. The spec calls what
  they maintain the run's queue membership: adding a run makes it a member, removing it
  (by the queue key, the run id and the session key) ends the membership.
\<close>

definition addChatRun ::
  "string \<Rightarrow> chat_run_entry \<Rightarrow> ('cfg, 'msg) gateway \<Rightarrow> ('cfg, 'msg) gateway" where
  "addChatRun sid entry g = g\<lparr>chatRuns := chatRuns g @ [(sid, entry)]\<rparr>"

definition removeChatRun ::
  "string \<Rightarrow> string \<Rightarrow> string \<Rightarrow> ('cfg, 'msg) gateway \<Rightarrow> ('cfg, 'msg) gateway" where
  "removeChatRun sid clientRunId sessionKey g =
     g\<lparr>chatRuns :=
         filter (\<lambda>(k, e). \<not> (k = sid \<and> cr_clientRunId e = clientRunId
                               \<and> cr_sessionKey e = sessionKey))
           (chatRuns g)\<rparr>"

text \<open>
  Modelled from the spec: \<^verbatim>\<open>registerAgentRunContext\<close> (infra/agent-events) records the
  run context, the side table from run id to session key.
\<close>

definition registerAgentRunContext ::
  "string \<Rightarrow> string \<Rightarrow> ('cfg, 'msg) gateway \<Rightarrow> ('cfg, 'msg) gateway" where
  "registerAgentRunContext runId sessionKey g =
     g\<lparr>runContexts := (runContexts g)(runId \<mapsto> sessionKey)\<rparr>"

text \<open>
  Modelled from the spec: \<^verbatim>\<open>loadSessionEntry\<close> (session-utils) reads the configuration
  and the session store, one document at the configured path mapping a session key to its
  entry, and returns them with the entry of the given key.
\<close>

definition loadSessionEntry :: "('cfg, 'msg) gateway \<Rightarrow> string \<Rightarrow> 'cfg loaded" where
  "loadSessionEntry g sessionKey =
     \<lparr>ld_cfg = config g,
      ld_storePath = configStorePath g,
      ld_store = Some (disk g (configStorePath g)),
      ld_entry = disk g (configStorePath g) sessionKey\<rparr>"

text \<open>
  Modelled from the spec: \<^verbatim>\<open>saveSessionStore(storePath, store)\<close> (config/sessions) writes
  the whole document at the path. The write takes effect when the call completes.
\<close>

definition saveSessionStore ::
  "string \<Rightarrow> session_store \<Rightarrow> ('cfg, 'msg) gateway \<Rightarrow> ('cfg, 'msg) gateway" where
  "saveSessionStore storePath store g = g\<lparr>disk := (disk g)(storePath := store)\<rparr>"

section \<open>chat.abort\<close>

record abort_params =
  ab_sessionKey :: string
  ab_runId :: string

text \<open>\<^verbatim>\<open>(context.agentRunSeq.get(runId) ?? 0) + 1\<close>\<close>

definition abort_seq :: "('cfg, 'msg) gateway \<Rightarrow> string \<Rightarrow> int" where
  "abort_seq g runId = (case agentRunSeq g runId of None \<Rightarrow> 0 | Some n \<Rightarrow> n) + 1"

definition aborted_event :: "('cfg, 'msg) gateway \<Rightarrow> string \<Rightarrow> string \<Rightarrow> chat_event" where
  "aborted_event g runId sessionKey =
     \<lparr>ev_runId = runId, ev_sessionKey = sessionKey, ev_seq = abort_seq g runId,
      ev_state = ''aborted''\<rparr>"

definition chat_abort ::
  "abort_params validated \<Rightarrow> ('cfg, 'msg) gateway \<Rightarrow> 'msg response \<times> ('cfg, 'msg) gateway" where
  "chat_abort params g =
     (case params of
        Invalid errs \<Rightarrow>
          (Response False None
             (Some (errorShape INVALID_REQUEST (''invalid chat.abort params: '' @ errs))) None,
           g)
      | Valid p \<Rightarrow>
          (case chatAbortControllers g (ab_runId p) of
             None \<Rightarrow> (Response True (Some (AbortPayload True False)) None None, g)
           | Some active \<Rightarrow>
               if ae_sessionKey active \<noteq> ab_sessionKey p then
                 (Response False None
                    (Some (errorShape INVALID_REQUEST ''runId does not match sessionKey'')) None,
                  g)
               else
                 let runId = ab_runId p;
                     sessionKey = ab_sessionKey p;
                     g1 = emit (ControllerAbort (controller active))
                            (g\<lparr>aborted := insert (controller active) (aborted g)\<rparr>);
                     g2 = g1\<lparr>chatAbortControllers := (chatAbortControllers g1)(runId := None)\<rparr>;
                     g3 = g2\<lparr>chatRunBuffers := (chatRunBuffers g2)(runId := None)\<rparr>;
                     g4 = g3\<lparr>chatDeltaSentAt := (chatDeltaSentAt g3)(runId := None)\<rparr>;
                     g5 = removeChatRun runId runId sessionKey g4;
                     ev = aborted_event g5 runId sessionKey;
                     g6 = emit (Broadcast ''chat'' ev) g5;
                     g7 = emit (BridgeSendToSession sessionKey ''chat'' ev) g6
                 in (Response True (Some (AbortPayload True True)) None None, g7)))"

section \<open>chat.history\<close>

record history_params =
  h_sessionKey :: string
  h_limit :: "int option"

text \<open>One entry of the model catalog: \<^verbatim>\<open>{id, name, provider, reasoning}\<close>.\<close>

record model_entry =
  me_id :: string
  me_name :: string
  me_provider :: string
  me_reasoning :: bool

text \<open>A thrown value, by the two renderings the handlers use:
  \<^verbatim>\<open>String(err)\<close> and \<^verbatim>\<open>formatForLog(err)\<close>.\<close>

record thrown =
  err_String :: string
  err_formatForLog :: string

text \<open>The normalized attachment handed to \<^verbatim>\<open>buildMessageWithAttachments\<close>.\<close>

record attachment =
  at_type :: "string option"
  at_mimeType :: "string option"
  at_fileName :: "string option"
  at_content :: "string option"

text \<open>
  Functions the handlers import from modules outside this development, taken as
  parameters. \<open>buildMessageWithAttachments\<close> returns \<open>Inl\<close> of \<^verbatim>\<open>String(err)\<close> when
  it throws. \<open>toBase64\<close> is \<^verbatim>\<open>Buffer.from(..).toString("base64")\<close>.

  The timeout is a JavaScript number that the handler only passes on: its type \<open>'num\<close>
  is left open, and \<open>ceilSecondsToString\<close> stands for the floating-point expression
  \<^verbatim>\<open>Math.ceil(timeoutMs / 1000).toString()\<close> of line 266.
\<close>

record ('cfg, 'msg, 'num) deps =
  readSessionMessages :: "string \<Rightarrow> string \<Rightarrow> 'msg list"
  jsonUtf8Bytes :: "'msg \<Rightarrow> nat"
  thinkingDefault :: "'cfg \<Rightarrow> string option"
  resolveSessionModelRef :: "'cfg \<Rightarrow> SessionEntry option \<Rightarrow> string \<times> string"
  loadGatewayModelCatalog :: "model_entry list"
  resolveThinkingDefault :: "'cfg \<Rightarrow> string \<Rightarrow> string \<Rightarrow> model_entry list \<Rightarrow> string"
  buildMessageWithAttachments :: "string \<Rightarrow> attachment list \<Rightarrow> nat \<Rightarrow> string + string"
  toBase64 :: "nat list \<Rightarrow> string"
  resolveAgentTimeoutMs :: "'cfg \<Rightarrow> 'num option \<Rightarrow> 'num"
  ceilSecondsToString :: "'num \<Rightarrow> string"
  resolveSendPolicy ::
    "'cfg \<Rightarrow> SessionEntry option \<Rightarrow> string \<Rightarrow> string option \<Rightarrow> string option \<Rightarrow> string"

text \<open>JavaScript truthiness of an optional string: absent and the empty string are falsy.\<close>

definition truthy :: "string option \<Rightarrow> bool" where
  "truthy s = (case s of None \<Rightarrow> False | Some t \<Rightarrow> t \<noteq> [])"

text \<open>
  \<^verbatim>\<open>Array.prototype.slice(start)\<close> for an integer \<open>start\<close>: a negative start counts from
  the end and is clamped at 0, a non-negative one is clamped at the length.
\<close>

definition js_slice :: "int \<Rightarrow> 'a list \<Rightarrow> 'a list" where
  "js_slice start xs =
     (let len = int (length xs);
          k = (if start < 0 then max (len + start) 0 else min start len)
      in drop (nat k) xs)"

text \<open>Lines 50-55 of the handler: the count cap of chat.history.\<close>

definition history_window :: "int option \<Rightarrow> 'msg list \<Rightarrow> 'msg list" where
  "history_window limit rawMessages =
     (let hardMax = 1000;
          defaultLimit = 200;
          requested = (case limit of Some l \<Rightarrow> l | None \<Rightarrow> defaultLimit);
          max = min hardMax requested
      in if int (length rawMessages) > max then js_slice (- max) rawMessages
         else rawMessages)"

text \<open>
  The length of \<^verbatim>\<open>JSON.stringify\<close> of an array whose items serialize to \<open>sz x\<close> bytes
  each: the two brackets, the items, and a comma between neighbours.
\<close>

definition jsonArrayBytes :: "('a \<Rightarrow> nat) \<Rightarrow> 'a list \<Rightarrow> nat" where
  "jsonArrayBytes sz xs = 2 + sum_list (map sz xs) + (length xs - 1)"

text \<open>
  Modelled from the spec: \<^verbatim>\<open>capArrayByJsonBytes\<close> (session-utils) is not among the
  handlers' sources. The spec: from the window, drop the oldest entries until the
  serialized size of the remaining set is at most the cap, preserving chronological order.
\<close>

fun capArrayByJsonBytes :: "('a \<Rightarrow> nat) \<Rightarrow> 'a list \<Rightarrow> nat \<Rightarrow> 'a list" where
  "capArrayByJsonBytes sz [] maxBytes = []"
| "capArrayByJsonBytes sz (x # xs) maxBytes =
     (if jsonArrayBytes sz (x # xs) \<le> maxBytes then x # xs
      else capArrayByJsonBytes sz xs maxBytes)"

text \<open>
  Modelled from the spec: \<^verbatim>\<open>MAX_CHAT_HISTORY_MESSAGES_BYTES\<close> (server-constants) is
  6 MiB.
\<close>

definition MAX_CHAT_HISTORY_MESSAGES_BYTES :: nat where
  "MAX_CHAT_HISTORY_MESSAGES_BYTES = 6 * 1024 * 1024"

text \<open>Lines 60-75: the stored level, else the configured default, else the catalog's.\<close>

definition history_thinkingLevel ::
  "('cfg, 'msg, 'num) deps \<Rightarrow> 'cfg loaded \<Rightarrow> ('cfg, 'msg) gateway \<Rightarrow> string \<times> ('cfg, 'msg) gateway" where
  "history_thinkingLevel d ld g =
     (let stored = (case ld_entry ld of None \<Rightarrow> None | Some e \<Rightarrow> thinkingLevel e)
      in case (if truthy stored then stored else None) of
           Some level \<Rightarrow> (level, g)
         | None \<Rightarrow>
             (case (let configured = thinkingDefault d (ld_cfg ld)
                    in if truthy configured then configured else None) of
                Some level \<Rightarrow> (level, g)
              | None \<Rightarrow>
                  let (provider, model) = resolveSessionModelRef d (ld_cfg ld) (ld_entry ld);
                      catalog = loadGatewayModelCatalog d
                  in (resolveThinkingDefault d (ld_cfg ld) provider model catalog,
                      emit LoadGatewayModelCatalog g)))"

text \<open>Lines 47-49: the transcript is read when the entry has a session id and there is a
  store path (both truthy); otherwise there are no messages.\<close>

definition history_rawMessages ::
  "('cfg, 'msg, 'num) deps \<Rightarrow> 'cfg loaded \<Rightarrow> ('cfg, 'msg) gateway \<Rightarrow> 'msg list \<times> ('cfg, 'msg) gateway"
  where
  "history_rawMessages d ld g =
     (case ld_entry ld of
        None \<Rightarrow> ([], g)
      | Some e \<Rightarrow>
          if sessionId e \<noteq> [] \<and> ld_storePath ld \<noteq> [] then
            (readSessionMessages d (sessionId e) (ld_storePath ld),
             emit (ReadSessionMessages (sessionId e) (ld_storePath ld)) g)
          else ([], g))"

definition chat_history ::
  "('cfg, 'msg, 'num) deps \<Rightarrow> history_params validated \<Rightarrow> ('cfg, 'msg) gateway
     \<Rightarrow> 'msg response \<times> ('cfg, 'msg) gateway" where
  "chat_history d params g =
     (case params of
        Invalid errs \<Rightarrow>
          (Response False None
             (Some (errorShape INVALID_REQUEST (''invalid chat.history params: '' @ errs))) None,
           g)
      | Valid p \<Rightarrow>
          let ld = loadSessionEntry g (h_sessionKey p);
              g1 = emit (LoadSessionEntry (h_sessionKey p)) g;
              sid = (case ld_entry ld of None \<Rightarrow> None | Some e \<Rightarrow> Some (sessionId e));
              (rawMessages, g2) = history_rawMessages d ld g1;
              sliced = history_window (h_limit p) rawMessages;
              capped = capArrayByJsonBytes (jsonUtf8Bytes d) sliced
                         MAX_CHAT_HISTORY_MESSAGES_BYTES;
              (level, g3) = history_thinkingLevel d ld g2
          in (Response True (Some (HistoryPayload (h_sessionKey p) sid capped level)) None None,
              g3))"

section \<open>chat.send\<close>

text \<open>The \<^verbatim>\<open>content\<close> of an incoming attachment is untyped: a string, a byte view, or
  anything else.\<close>

datatype content = ContentString string | ContentBytes "nat list" | ContentOther

record attachment_in =
  in_type :: "string option"
  in_mimeType :: "string option"
  in_fileName :: "string option"
  in_content :: content

record 'num send_params =
  p_sessionKey :: string
  p_message :: string
  p_thinking :: "string option"
  p_deliver :: "bool option"
  p_attachments :: "attachment_in list option"
  p_timeoutMs :: "'num option"
  p_idempotencyKey :: string

text \<open>What a request reads from its environment: \<^verbatim>\<open>Date.now()\<close> and
  \<^verbatim>\<open>randomUUID()\<close> at line 196-197.\<close>

record send_env =
  env_now :: int
  env_uuid :: string

text \<open>How an awaited promise settles.\<close>

datatype settled = Resolved | Rejected thrown

text \<open>The local variables of a chat.send call that is suspended at an \<^verbatim>\<open>await\<close>.\<close>

record 'num pending_send =
  pd_params :: "'num send_params"
  pd_message :: string
  pd_sessionId :: string
  pd_timeoutMs :: 'num
  pd_controller :: nat
  pd_storePath :: string
  pd_store :: session_store

datatype ('msg, 'num) send_step =
    Done "'msg response"
  | AwaitSave "'num pending_send"
  | AwaitAgent "'num pending_send"

text \<open>Lines 158-173.\<close>

definition normalizeAttachment :: "('cfg, 'msg, 'num) deps \<Rightarrow> attachment_in \<Rightarrow> attachment" where
  "normalizeAttachment d a =
     \<lparr>at_type = in_type a,
      at_mimeType = in_mimeType a,
      at_fileName = in_fileName a,
      at_content = (case in_content a of
                      ContentString s \<Rightarrow> Some s
                    | ContentBytes bs \<Rightarrow> Some (toBase64 d bs)
                    | ContentOther \<Rightarrow> None)\<rparr>"

text \<open>Lines 259-269: the options of the executor call.\<close>

definition agent_opts_of ::
  "('cfg, 'msg, 'num) deps \<Rightarrow> 'num pending_send \<Rightarrow> agent_opts" where
  "agent_opts_of d pd =
     \<lparr>ao_message = pd_message pd,
      ao_sessionId = pd_sessionId pd,
      ao_sessionKey = p_sessionKey (pd_params pd),
      ao_runId = p_idempotencyKey (pd_params pd),
      ao_thinking = p_thinking (pd_params pd),
      ao_deliver = p_deliver (pd_params pd),
      ao_timeout = ceilSecondsToString d (pd_timeoutMs pd),
      ao_messageProvider = ''webchat'',
      ao_abortSignal = pd_controller pd\<rparr>"

text \<open>Lines 258-272: the call of the executor. The call returns a promise; the handler is
  suspended until it settles.\<close>

definition invoke_agent ::
  "('cfg, 'msg, 'num) deps \<Rightarrow> 'num pending_send \<Rightarrow> ('cfg, 'msg) gateway
     \<Rightarrow> ('msg, 'num) send_step \<times> ('cfg, 'msg) gateway" where
  "invoke_agent d pd g = (AwaitAgent pd, emit (AgentCommand (agent_opts_of d pd)) g)"

text \<open>The key of a run in the dedup cache, the template \<^verbatim>\<open>`chat:${clientRunId}`\<close>.\<close>

definition dedupe_key :: "string \<Rightarrow> string" where
  "dedupe_key clientRunId = ''chat:'' @ clientRunId"

text \<open>Line 301, the \<^verbatim>\<open>finally\<close> block.\<close>

definition send_finally :: "string \<Rightarrow> ('cfg, 'msg) gateway \<Rightarrow> ('cfg, 'msg) gateway" where
  "send_finally clientRunId g =
     g\<lparr>chatAbortControllers := (chatAbortControllers g)(clientRunId := None)\<rparr>"

text \<open>Lines 273-282, then \<^verbatim>\<open>finally\<close>: the executor's promise resolved at time \<open>t\<close>.\<close>

definition send_succeed ::
  "int \<Rightarrow> 'num pending_send \<Rightarrow> ('cfg, 'msg) gateway \<Rightarrow> 'msg response \<times> ('cfg, 'msg) gateway" where
  "send_succeed t pd g =
     (let clientRunId = p_idempotencyKey (pd_params pd);
          pl = RunPayload clientRunId ''ok'' None;
          g1 = g\<lparr>dedupe := (dedupe g)(dedupe_key clientRunId \<mapsto>
                  \<lparr>ts = t, ok = True, payload = Some pl, error = None\<rparr>)\<rparr>
      in (Response True (Some pl) None (Some (RunMeta clientRunId None)),
          send_finally clientRunId g1))"

text \<open>Lines 283-299, then \<^verbatim>\<open>finally\<close>: something in the \<^verbatim>\<open>try\<close> block threw \<open>err\<close>.\<close>

definition send_fail ::
  "thrown \<Rightarrow> int \<Rightarrow> 'num pending_send \<Rightarrow> ('cfg, 'msg) gateway
     \<Rightarrow> 'msg response \<times> ('cfg, 'msg) gateway" where
  "send_fail err t pd g =
     (let clientRunId = p_idempotencyKey (pd_params pd);
          er = errorShape UNAVAILABLE (err_String err);
          pl = RunPayload clientRunId ''error'' (Some (err_String err));
          g1 = g\<lparr>dedupe := (dedupe g)(dedupe_key clientRunId \<mapsto>
                  \<lparr>ts = t, ok = False, payload = Some pl, error = Some er\<rparr>)\<rparr>
      in (Response False (Some pl) (Some er)
            (Some (RunMeta clientRunId (Some (err_formatForLog err)))),
          send_finally clientRunId g1))"

text \<open>Lines 158-190: the attachments are normalized and, when there are any, merged into
  the message under the cap of 5,000,000 bytes. \<open>Inl\<close> is the error the merge threw.\<close>

definition merge_attachments :: "('cfg, 'msg, 'num) deps \<Rightarrow> 'num send_params \<Rightarrow> string + string" where
  "merge_attachments d p =
     (let normalizedAttachments =
            (case p_attachments p of None \<Rightarrow> []
             | Some as \<Rightarrow> map (normalizeAttachment d) as)
      in if normalizedAttachments \<noteq> [] then
           buildMessageWithAttachments d (p_message p) normalizedAttachments 5000000
         else Inr (p_message p))"

text \<open>Lines 212-218: the send policy of the request's session.\<close>

definition session_policy :: "('cfg, 'msg, 'num) deps \<Rightarrow> 'cfg loaded \<Rightarrow> 'num send_params \<Rightarrow> string" where
  "session_policy d ld p =
     resolveSendPolicy d (ld_cfg ld) (ld_entry ld) (p_sessionKey p)
       (Option.bind (ld_entry ld) provider) (Option.bind (ld_entry ld) chatType)"

text \<open>Lines 196-208: the entry the handler writes for the session. \<open>entry\<close> is the
  loaded entry, absent for a new session.\<close>

definition new_session_entry :: "send_env \<Rightarrow> SessionEntry option \<Rightarrow> SessionEntry" where
  "new_session_entry env entry =
     \<lparr>sessionId = (case entry of None \<Rightarrow> env_uuid env | Some e \<Rightarrow> sessionId e),
      updatedAt = env_now env,
      thinkingLevel = Option.bind entry thinkingLevel,
      verboseLevel = Option.bind entry verboseLevel,
      reasoningLevel = Option.bind entry reasoningLevel,
      systemSent = Option.bind entry systemSent,
      sendPolicy = Option.bind entry sendPolicy,
      lastProvider = Option.bind entry lastProvider,
      lastTo = Option.bind entry lastTo,
      provider = None,
      chatType = None\<rparr>"

text \<open>
  Lines 239-256: the \<^verbatim>\<open>try\<close> block up to its first \<^verbatim>\<open>await\<close>. A new abort controller
  is registered for the run, the run joins the queue, and the entry is put into the loaded
  store. With a store and a store path the handler is suspended at the save; otherwise it
  calls the executor at once.
\<close>

definition send_start ::
  "('cfg, 'msg, 'num) deps \<Rightarrow> 'cfg loaded \<Rightarrow> 'num send_params \<Rightarrow> string \<Rightarrow> SessionEntry \<Rightarrow> 'num
     \<Rightarrow> ('cfg, 'msg) gateway \<Rightarrow> ('msg, 'num) send_step \<times> ('cfg, 'msg) gateway" where
  "send_start d ld p messageWithAttachments sessionEntry timeoutMs g =
     (let clientRunId = p_idempotencyKey p;
          c = nextController g;
          g1 = g\<lparr>nextController := Suc c\<rparr>;
          g2 = g1\<lparr>chatAbortControllers :=
                  (chatAbortControllers g1)(clientRunId \<mapsto>
                     \<lparr>controller = c, ae_sessionId = sessionId sessionEntry,
                      ae_sessionKey = p_sessionKey p\<rparr>)\<rparr>;
          g3 = addChatRun clientRunId
                 \<lparr>cr_sessionKey = p_sessionKey p, cr_clientRunId = clientRunId\<rparr> g2;
          pd = \<lparr>pd_params = p,
                pd_message = messageWithAttachments,
                pd_sessionId = sessionId sessionEntry,
                pd_timeoutMs = timeoutMs,
                pd_controller = c,
                pd_storePath = ld_storePath ld,
                pd_store = Map.empty\<rparr>
      in case ld_store ld of
           None \<Rightarrow> invoke_agent d pd g3
         | Some store \<Rightarrow>
             let store' = store(p_sessionKey p \<mapsto> sessionEntry)
             in if ld_storePath ld \<noteq> [] then
                  (AwaitSave (pd\<lparr>pd_store := store'\<rparr>),
                   emit (SaveSessionStore (ld_storePath ld) store') g3)
                else invoke_agent d (pd\<lparr>pd_store := store'\<rparr>) g3)"

text \<open>
  Lines 132-256: the handler up to its first \<^verbatim>\<open>await\<close>. It either responds and returns
  (validation, attachments, send policy, dedup replay), or starts the run and is
  suspended.
\<close>

definition chat_send_begin ::
  "('cfg, 'msg, 'num) deps \<Rightarrow> send_env \<Rightarrow> 'num send_params validated \<Rightarrow> ('cfg, 'msg) gateway
     \<Rightarrow> ('msg, 'num) send_step \<times> ('cfg, 'msg) gateway" where
  "chat_send_begin d env params g =
     (case params of
        Invalid errs \<Rightarrow>
          (Done (Response False None
                   (Some (errorShape INVALID_REQUEST (''invalid chat.send params: '' @ errs)))
                   None),
           g)
      | Valid p \<Rightarrow>
          (case merge_attachments d p of
             Inl err \<Rightarrow>
               (Done (Response False None (Some (errorShape INVALID_REQUEST err)) None), g)
           | Inr messageWithAttachments \<Rightarrow>
               let ld = loadSessionEntry g (p_sessionKey p);
                   g1 = emit (LoadSessionEntry (p_sessionKey p)) g;
                   timeoutMs = resolveAgentTimeoutMs d (ld_cfg ld) (p_timeoutMs p);
                   sessionEntry = new_session_entry env (ld_entry ld);
                   clientRunId = p_idempotencyKey p;
                   g2 = registerAgentRunContext clientRunId (p_sessionKey p) g1
               in if session_policy d ld p = ''deny'' then
                    (Done (Response False None
                             (Some (errorShape INVALID_REQUEST
                                      ''send blocked by session policy''))
                             None),
                     g2)
                  else
                    (case dedupe g2 (dedupe_key clientRunId) of
                       Some cached \<Rightarrow>
                         (Done (Response (ok cached) (payload cached) (error cached)
                                  (Some Cached)),
                          g2)
                     | None \<Rightarrow>
                         send_start d ld p messageWithAttachments sessionEntry timeoutMs g2)))"

text \<open>
  Lines 254-258: the save of the session store settles. When it resolved, the document is
  on disk and the handler calls the executor; when it rejected, the handler is in its
  \<^verbatim>\<open>catch\<close> block (\<open>t\<close> is \<^verbatim>\<open>Date.now()\<close> there).
\<close>

definition chat_send_saved ::
  "('cfg, 'msg, 'num) deps \<Rightarrow> settled \<Rightarrow> int \<Rightarrow> 'num pending_send \<Rightarrow> ('cfg, 'msg) gateway
     \<Rightarrow> ('msg, 'num) send_step \<times> ('cfg, 'msg) gateway" where
  "chat_send_saved d outcome t pd g =
     (case outcome of
        Resolved \<Rightarrow> invoke_agent d pd (saveSessionStore (pd_storePath pd) (pd_store pd) g)
      | Rejected err \<Rightarrow> (let (r, g') = send_fail err t pd g in (Done r, g')))"

text \<open>Lines 273-302: the executor's promise settles at time \<open>t\<close>.\<close>

definition chat_send_settled ::
  "settled \<Rightarrow> int \<Rightarrow> 'num pending_send \<Rightarrow> ('cfg, 'msg) gateway
     \<Rightarrow> 'msg response \<times> ('cfg, 'msg) gateway" where
  "chat_send_settled outcome t pd g =
     (case outcome of
        Resolved \<Rightarrow> send_succeed t pd g
      | Rejected err \<Rightarrow> send_fail err t pd g)"

text \<open>
  A chat.send call run to completion with no other handler running in between: the
  outcomes of the two awaited promises and the time of completion are given.
\<close>

record run_env =
  re_env :: send_env
  re_save :: settled
  re_agent :: settled
  re_doneAt :: int

fun run_to_completion ::
  "('cfg, 'msg, 'num) deps \<Rightarrow> run_env \<Rightarrow> ('msg, 'num) send_step \<Rightarrow> ('cfg, 'msg) gateway
     \<Rightarrow> 'msg response \<times> ('cfg, 'msg) gateway"
  where
  "run_to_completion d re (Done r) g = (r, g)"
| "run_to_completion d re (AwaitAgent pd) g =
     chat_send_settled (re_agent re) (re_doneAt re) pd g"
| "run_to_completion d re (AwaitSave pd) g =
     (case chat_send_saved d (re_save re) (re_doneAt re) pd g of
        (Done r, g1) \<Rightarrow> (r, g1)
      | (AwaitAgent pd', g1) \<Rightarrow> chat_send_settled (re_agent re) (re_doneAt re) pd' g1
      | (AwaitSave pd', g1) \<Rightarrow> chat_send_settled (re_agent re) (re_doneAt re) pd' g1)"

definition chat_send ::
  "('cfg, 'msg, 'num) deps \<Rightarrow> run_env \<Rightarrow> 'num send_params validated \<Rightarrow> ('cfg, 'msg) gateway
     \<Rightarrow> 'msg response \<times> ('cfg, 'msg) gateway" where
  "chat_send d re params g =
     (case chat_send_begin d (re_env re) params g of
        (st, g1) \<Rightarrow> run_to_completion d re st g1)"

section \<open>Handlers in flight together\<close>

text \<open>
  The gateway runs one handler at a time, but a chat.send call is suspended at its two
  \<^verbatim>\<open>await\<close>s, and other requests are handled meanwhile. The server is the gateway
  together with the chat.send calls that are suspended and the responses sent so far, each
  with the run id of the chat.send request it answers (none for other requests).
\<close>

datatype 'num incoming =
    ChatSend send_env "'num send_params validated"
  | ChatAbort "abort_params validated"
  | ChatHistory "history_params validated"

text \<open>
  What can happen next: a request arrives and its handler runs up to its first
  \<^verbatim>\<open>await\<close> or to its end; the save awaited by the \<open>i\<close>-th suspended call settles; the
  executor's promise awaited by the \<open>i\<close>-th suspended call settles. The number is
  \<^verbatim>\<open>Date.now()\<close> at that moment.
\<close>

datatype 'num event =
    Arrives "'num incoming"
  | SaveSettles nat settled int
  | AgentSettles nat settled int

record ('cfg, 'msg, 'num) server =
  gw :: "('cfg, 'msg) gateway"
  suspended :: "('msg, 'num) send_step list"
  replies :: "(string option \<times> 'msg response) list"

text \<open>A server with no call in flight.\<close>

definition idle :: "('cfg, 'msg) gateway \<Rightarrow> ('cfg, 'msg, 'num) server" where
  "idle g = \<lparr>gw = g, suspended = [], replies = []\<rparr>"

fun send_tag :: "'num send_params validated \<Rightarrow> string option" where
  "send_tag (Valid p) = Some (p_idempotencyKey p)"
| "send_tag (Invalid errs) = None"

fun step_key :: "('msg, 'num) send_step \<Rightarrow> string option" where
  "step_key (Done r) = None"
| "step_key (AwaitSave pd) = Some (p_idempotencyKey (pd_params pd))"
| "step_key (AwaitAgent pd) = Some (p_idempotencyKey (pd_params pd))"

fun awaits_save :: "string \<Rightarrow> ('msg, 'num) send_step \<Rightarrow> bool" where
  "awaits_save k (AwaitSave pd) = (p_idempotencyKey (pd_params pd) = k)"
| "awaits_save k _ = False"

definition drop_nth :: "nat \<Rightarrow> 'a list \<Rightarrow> 'a list" where
  "drop_nth i xs = take i xs @ drop (Suc i) xs"

text \<open>An event that names no suspended call of the right kind has no effect.\<close>

fun step ::
  "('cfg, 'msg, 'num) deps \<Rightarrow> 'num event \<Rightarrow> ('cfg, 'msg, 'num) server \<Rightarrow> ('cfg, 'msg, 'num) server"
  where
  "step d (Arrives (ChatSend env params)) s =
     (case chat_send_begin d env params (gw s) of
        (Done r, g) \<Rightarrow> s\<lparr>gw := g, replies := replies s @ [(send_tag params, r)]\<rparr>
      | (AwaitSave pd, g) \<Rightarrow> s\<lparr>gw := g, suspended := suspended s @ [AwaitSave pd]\<rparr>
      | (AwaitAgent pd, g) \<Rightarrow> s\<lparr>gw := g, suspended := suspended s @ [AwaitAgent pd]\<rparr>)"
| "step d (Arrives (ChatAbort params)) s =
     (case chat_abort params (gw s) of
        (r, g) \<Rightarrow> s\<lparr>gw := g, replies := replies s @ [(None, r)]\<rparr>)"
| "step d (Arrives (ChatHistory params)) s =
     (case chat_history d params (gw s) of
        (r, g) \<Rightarrow> s\<lparr>gw := g, replies := replies s @ [(None, r)]\<rparr>)"
| "step d (SaveSettles i outcome t) s =
     (if i < length (suspended s) then
        (case suspended s ! i of
           AwaitSave pd \<Rightarrow>
             (case chat_send_saved d outcome t pd (gw s) of
                (Done r, g) \<Rightarrow>
                  s\<lparr>gw := g, suspended := drop_nth i (suspended s),
                    replies := replies s @ [(Some (p_idempotencyKey (pd_params pd)), r)]\<rparr>
              | (AwaitSave pd', g) \<Rightarrow> s\<lparr>gw := g, suspended := (suspended s)[i := AwaitSave pd']\<rparr>
              | (AwaitAgent pd', g) \<Rightarrow>
                  s\<lparr>gw := g, suspended := (suspended s)[i := AwaitAgent pd']\<rparr>)
         | AwaitAgent pd \<Rightarrow> s
         | Done r \<Rightarrow> s)
      else s)"
| "step d (AgentSettles i outcome t) s =
     (if i < length (suspended s) then
        (case suspended s ! i of
           AwaitAgent pd \<Rightarrow>
             (case chat_send_settled outcome t pd (gw s) of
                (r, g) \<Rightarrow>
                  s\<lparr>gw := g, suspended := drop_nth i (suspended s),
                    replies := replies s @ [(Some (p_idempotencyKey (pd_params pd)), r)]\<rparr>)
         | AwaitSave pd \<Rightarrow> s
         | Done r \<Rightarrow> s)
      else s)"

fun run_events ::
  "('cfg, 'msg, 'num) deps \<Rightarrow> 'num event list \<Rightarrow> ('cfg, 'msg, 'num) server
     \<Rightarrow> ('cfg, 'msg, 'num) server" where
  "run_events d [] s = s"
| "run_events d (e # es) s = run_events d es (step d e s)"

text \<open>The runs with run id \<open>k\<close> that are in flight, and those of them that still await
  their save.\<close>

definition runs_in_flight :: "string \<Rightarrow> ('cfg, 'msg, 'num) server \<Rightarrow> nat" where
  "runs_in_flight k s = length (filter (\<lambda>st. step_key st = Some k) (suspended s))"

definition saves_in_flight :: "string \<Rightarrow> ('cfg, 'msg, 'num) server \<Rightarrow> nat" where
  "saves_in_flight k s = length (filter (awaits_save k) (suspended s))"

text \<open>
  Along the events \<open>es\<close> from the server \<open>s\<close>, no two runs with run id \<open>k\<close> are in
  flight at once. Runs with other ids, aborts and history reads are not restricted.
\<close>

fun one_run_at_a_time ::
  "('cfg, 'msg, 'num) deps \<Rightarrow> string \<Rightarrow> 'num event list \<Rightarrow> ('cfg, 'msg, 'num) server \<Rightarrow> bool"
  where
  "one_run_at_a_time d k [] s = (runs_in_flight k s \<le> 1)"
| "one_run_at_a_time d k (e # es) s =
     (runs_in_flight k s \<le> 1 \<and> one_run_at_a_time d k es (step d e s))"

text \<open>Observations on the log of effects and on responses.\<close>

fun is_executor_call :: "string \<Rightarrow> effect \<Rightarrow> bool" where
  "is_executor_call k (AgentCommand opts) = (ao_runId opts = k)"
| "is_executor_call k _ = False"

fun is_any_executor_call :: "effect \<Rightarrow> bool" where
  "is_any_executor_call (AgentCommand opts) = True"
| "is_any_executor_call _ = False"

fun is_store_write :: "effect \<Rightarrow> bool" where
  "is_store_write (SaveSessionStore path store) = True"
| "is_store_write _ = False"

definition executor_calls :: "string \<Rightarrow> ('cfg, 'msg) gateway \<Rightarrow> nat" where
  "executor_calls k g = length (filter (is_executor_call k) (effects g))"

text \<open>
  The executor calls made for run id \<open>k\<close> together with those that can still come: one
  for each run of \<open>k\<close> that awaits its save, and one more while \<open>k\<close> is neither cached
  nor in flight.
\<close>

definition call_budget :: "string \<Rightarrow> ('cfg, 'msg, 'num) server \<Rightarrow> nat" where
  "call_budget k s =
     executor_calls k (gw s) + saves_in_flight k s
       + (if dedupe (gw s) (dedupe_key k) = None \<and> runs_in_flight k s = 0 then 1 else 0)"

text \<open>A response that reports the outcome of a run, fresh or replayed, carries a fourth
  argument; the rejections before the dedup check carry none.\<close>

fun is_terminal :: "'msg response \<Rightarrow> bool" where
  "is_terminal (Response b pl er m) = (m \<noteq> None)"

fun replays :: "'msg dedupe_entry \<Rightarrow> 'msg response \<Rightarrow> bool" where
  "replays c (Response b pl er m) = (b = ok c \<and> pl = payload c \<and> er = error c)"

text \<open>A response to a chat.send request with run id \<open>k\<close> that reports a run's outcome.\<close>

fun reports :: "string \<Rightarrow> string option \<times> 'msg response \<Rightarrow> bool" where
  "reports k (tag, r) = (tag = Some k \<and> is_terminal r)"

text \<open>
  The responses sent so far agree with the cache on run id \<open>k\<close>: none reports an outcome
  while \<open>k\<close> is not cached; once it is cached, no run of \<open>k\<close> is in flight and every
  reported outcome replays the entry.
\<close>

definition replies_follow_cache :: "string \<Rightarrow> ('cfg, 'msg, 'num) server \<Rightarrow> bool" where
  "replies_follow_cache k s =
     (case dedupe (gw s) (dedupe_key k) of
        None \<Rightarrow> (\<forall>x \<in> set (replies s). \<not> reports k x)
      | Some c \<Rightarrow>
          runs_in_flight k s = 0 \<and> (\<forall>x \<in> set (replies s). reports k x \<longrightarrow> replays c (snd x)))"

text \<open>The first three arguments of \<^verbatim>\<open>respond\<close>: ok, payload, error.\<close>

fun outcome_of :: "'msg response \<Rightarrow> bool \<times> 'msg payload option \<times> error_shape option" where
  "outcome_of (Response b pl er m) = (b, pl, er)"

text \<open>The \<^verbatim>\<open>messages\<close> of a chat.history response.\<close>

fun response_messages :: "'msg response \<Rightarrow> 'msg list" where
  "response_messages (Response b (Some (HistoryPayload k sid ms level)) er m) = ms"
| "response_messages _ = []"

text \<open>The entry under which a run that settles at time \<open>t\<close> is cached: lines 277-281
  when the \<^verbatim>\<open>try\<close> block completed, lines 290-295 when it threw.\<close>

definition terminal_entry :: "settled \<Rightarrow> int \<Rightarrow> string \<Rightarrow> 'msg dedupe_entry" where
  "terminal_entry outcome t runId =
     (case outcome of
        Resolved \<Rightarrow>
          \<lparr>ts = t, ok = True, payload = Some (RunPayload runId ''ok'' None), error = None\<rparr>
      | Rejected err \<Rightarrow>
          \<lparr>ts = t, ok = False,
           payload = Some (RunPayload runId ''error'' (Some (err_String err))),
           error = Some (errorShape UNAVAILABLE (err_String err))\<rparr>)"

section \<open>Example inputs\<close>

text \<open>The decimal digits of a natural number, to name the example messages and to print
  the examples' timeouts, which are whole and positive.\<close>

fun digits :: "nat \<Rightarrow> string" where
  "digits n = (if n < 10 then [''0123456789'' ! n]
               else digits (n div 10) @ [''0123456789'' ! (n mod 10)])"

text \<open>Stand-ins for the imported functions: a transcript of 300 small messages for
  session main and of three messages of 3,000,000 bytes each for session big, a policy
  that denies discord groups, a merge that rejects an attachment without text content or
  above the cap.\<close>

definition example_deps :: "(unit, string, int) deps" where
  "example_deps =
     \<lparr>readSessionMessages =
        (\<lambda>sid path. if sid = ''sess-main'' then map (\<lambda>i. CHR ''m'' # digits i) [0..<300]
                     else if sid = ''sess-big'' then [''b0'', ''b1'', ''b2'']
                     else []),
      jsonUtf8Bytes = (\<lambda>m. if take 1 m = ''b'' then 3000000 else length m + 2),
      thinkingDefault = (\<lambda>cfg. None),
      resolveSessionModelRef = (\<lambda>cfg entry. (''anthropic'', ''claude-opus-4-5'')),
      loadGatewayModelCatalog = [],
      resolveThinkingDefault = (\<lambda>cfg prov model catalog. ''off''),
      buildMessageWithAttachments =
        (\<lambda>msg atts maxBytes.
           if list_ex (\<lambda>a. case at_content a of None \<Rightarrow> True
                            | Some c \<Rightarrow> maxBytes < length c) atts
           then Inl ''Error: attachment exceeds size limit''
           else Inr (msg @ concat (map (\<lambda>a. case at_content a of None \<Rightarrow> []
                                           | Some c \<Rightarrow> c) atts))),
      toBase64 = (\<lambda>bs. replicate (4 * ((length bs + 2) div 3)) (CHR ''A'')),
      resolveAgentTimeoutMs = (\<lambda>cfg ov. case ov of None \<Rightarrow> 600000 | Some t \<Rightarrow> t),
      ceilSecondsToString = (\<lambda>t. digits (nat (- ((- t) div 1000)))),
      resolveSendPolicy =
        (\<lambda>cfg entry key prov ct.
           if prov = Some ''discord'' \<and> ct = Some ''group'' then ''deny'' else ''allow'')\<rparr>"

definition entry_main :: SessionEntry where
  "entry_main =
     \<lparr>sessionId = ''sess-main'', updatedAt = 1, thinkingLevel = None, verboseLevel = None,
      reasoningLevel = None, systemSent = None, sendPolicy = None,
      lastProvider = Some ''whatsapp'', lastTo = Some ''+1555'',
      provider = None, chatType = None\<rparr>"

definition entry_discord :: SessionEntry where
  "entry_discord =
     \<lparr>sessionId = ''sess-discord'', updatedAt = 1, thinkingLevel = None, verboseLevel = None,
      reasoningLevel = None, systemSent = None, sendPolicy = None,
      lastProvider = None, lastTo = None,
      provider = Some ''discord'', chatType = Some ''group''\<rparr>"

definition entry_big :: SessionEntry where
  "entry_big =
     \<lparr>sessionId = ''sess-big'', updatedAt = 1, thinkingLevel = None, verboseLevel = None,
      reasoningLevel = None, systemSent = None, sendPolicy = None,
      lastProvider = None, lastTo = None, provider = None, chatType = None\<rparr>"

definition example_store :: session_store where
  "example_store =
     [''main'' \<mapsto> entry_main, ''discord:group:dev'' \<mapsto> entry_discord, ''big'' \<mapsto> entry_big]"

definition example_gateway :: "(unit, string) gateway" where
  "example_gateway =
     \<lparr>dedupe = Map.empty, chatAbortControllers = Map.empty, chatRunBuffers = Map.empty,
      chatDeltaSentAt = Map.empty, agentRunSeq = Map.empty, chatRuns = [],
      runContexts = Map.empty, nextController = 0, aborted = {},
      disk = (\<lambda>path. if path = ''sessions.json'' then example_store else Map.empty),
      config = (), configStorePath = ''sessions.json'', effects = []\<rparr>"

definition example_send :: "string \<Rightarrow> string \<Rightarrow> int send_params" where
  "example_send sessionKey key =
     \<lparr>p_sessionKey = sessionKey, p_message = ''hello'', p_thinking = None, p_deliver = None,
      p_attachments = None, p_timeoutMs = None, p_idempotencyKey = key\<rparr>"

definition example_env :: send_env where
  "example_env = \<lparr>env_now = 100, env_uuid = ''uuid-1''\<rparr>"

definition example_run :: "settled \<Rightarrow> run_env" where
  "example_run outcome =
     \<lparr>re_env = example_env, re_save = Resolved, re_agent = outcome, re_doneAt = 200\<rparr>"

text \<open>The gateway while a chat.send on session main with key idem-1 awaits the executor.\<close>

definition example_live :: "(unit, string) gateway" where
  "example_live =
     example_gateway
       \<lparr>chatAbortControllers :=
          [''idem-1'' \<mapsto> \<lparr>controller = 0, ae_sessionId = ''sess-main'', ae_sessionKey = ''main''\<rparr>],
        chatRuns := [(''idem-1'', \<lparr>cr_sessionKey = ''main'', cr_clientRunId = ''idem-1''\<rparr>)],
        chatRunBuffers := [''idem-1'' \<mapsto> ''partial''],
        chatDeltaSentAt := [''idem-1'' \<mapsto> 150],
        agentRunSeq := [''idem-1'' \<mapsto> 4],
        runContexts := [''idem-1'' \<mapsto> ''main''],
        nextController := 1\<rparr>"

text \<open>An attachment whose content is one byte above the cap.\<close>

definition example_big_attachment :: attachment_in where
  "example_big_attachment =
     \<lparr>in_type = Some ''image'', in_mimeType = Some ''image/png'',
      in_fileName = Some ''big.png'',
      in_content = ContentString (replicate 5000001 (CHR ''A''))\<rparr>"

text \<open>A chat.send for a denied session that carries the oversized attachment.\<close>

definition example_attach_send :: "int send_params" where
  "example_attach_send =
     (example_send ''discord:group:dev'' ''idem-2'')
       \<lparr>p_attachments := Some [example_big_attachment]\<rparr>"

text \<open>The gateway after a chat.send on session main with key idem-1 ran to completion.\<close>

definition example_completed :: "(unit, string) gateway" where
  "example_completed =
     snd (chat_send example_deps (example_run Resolved)
            (Valid (example_send ''main'' ''idem-1'')) example_gateway)"

text \<open>
  Two chat.send calls with the same key that overlap: the second begins while the first
  awaits its save, then both saves resolve.
\<close>

definition example_overlap :: "(unit, string) gateway" where
  "example_overlap =
     (case chat_send_begin example_deps example_env
             (Valid (example_send ''main'' ''idem-1'')) example_gateway of
        (AwaitSave pd1, g1) \<Rightarrow>
          (case chat_send_begin example_deps example_env
                  (Valid (example_send ''main'' ''idem-1'')) g1 of
             (AwaitSave pd2, g2) \<Rightarrow>
               snd (chat_send_saved example_deps Resolved 200 pd2
                      (snd (chat_send_saved example_deps Resolved 200 pd1 g2)))
           | (st, g2) \<Rightarrow> g2)
      | (st, g1) \<Rightarrow> g1)"

text \<open>The locals of that chat.send while it awaits the executor.\<close>

definition example_pending :: "int pending_send" where
  "example_pending =
     \<lparr>pd_params = example_send ''main'' ''idem-1'', pd_message = ''hello'',
      pd_sessionId = ''sess-main'', pd_timeoutMs = 600000, pd_controller = 0,
      pd_storePath = ''sessions.json'',
      pd_store = example_store(''main'' \<mapsto> new_session_entry example_env (Some entry_main))\<rparr>"

text \<open>
  A schedule in which the runs idem-1 and idem-2 overlap: both begin, both saves resolve,
  and run idem-1 settles.
\<close>

definition example_first_run :: "int event list" where
  "example_first_run =
     [Arrives (ChatSend example_env (Valid (example_send ''main'' ''idem-1''))),
      Arrives (ChatSend example_env (Valid (example_send ''main'' ''idem-2''))),
      SaveSettles 0 Resolved 150,
      SaveSettles 1 Resolved 160,
      AgentSettles 0 Resolved 200]"

text \<open>Then idem-1 is requested again, and run idem-2 fails.\<close>

definition example_afterwards :: "int event list" where
  "example_afterwards =
     [Arrives (ChatSend example_env (Valid (example_send ''main'' ''idem-1''))),
      AgentSettles 0 (Rejected \<lparr>err_String = ''Error: boom'', err_formatForLog = ''boom''\<rparr>) 300]"

text \<open>
  A schedule in which two runs with the same run id overlap: the second request arrives
  while the first awaits its save; both saves resolve, and the first run settles.
\<close>

definition example_overlap_events :: "int event list" where
  "example_overlap_events =
     [Arrives (ChatSend example_env (Valid (example_send ''main'' ''idem-1''))),
      Arrives (ChatSend example_env (Valid (example_send ''main'' ''idem-1''))),
      SaveSettles 0 Resolved 150,
      SaveSettles 1 Resolved 160,
      AgentSettles 0 Resolved 200]"

section \<open>Properties of the handlers\<close>

subsection \<open>chat.send, phase by phase\<close>


lemma dedupe_key_eq [simp]: "dedupe_key a = dedupe_key b \<longleftrightarrow> a = b"
  by (simp add: dedupe_key_def)

lemma begin_invalid:
  "chat_send_begin d env (Invalid errs) g =
     (Done (Response False None
              (Some (errorShape INVALID_REQUEST (''invalid chat.send params: '' @ errs))) None), g)"
  by (simp add: chat_send_begin_def)

lemma begin_merge_fail:
  "merge_attachments d p = Inl err \<Longrightarrow>
   chat_send_begin d env (Valid p) g =
     (Done (Response False None (Some (errorShape INVALID_REQUEST err)) None), g)"
  by (simp add: chat_send_begin_def)

lemma begin_deny:
  "merge_attachments d p = Inr m \<Longrightarrow>
   session_policy d (loadSessionEntry g (p_sessionKey p)) p = ''deny'' \<Longrightarrow>
   chat_send_begin d env (Valid p) g =
     (Done (Response False None
              (Some (errorShape INVALID_REQUEST ''send blocked by session policy'')) None),
      g\<lparr>runContexts := (runContexts g)(p_idempotencyKey p \<mapsto> p_sessionKey p),
        effects := effects g @ [LoadSessionEntry (p_sessionKey p)]\<rparr>)"
  by (simp add: chat_send_begin_def Let_def emit_def registerAgentRunContext_def)

lemma begin_cached:
  "merge_attachments d p = Inr m \<Longrightarrow>
   session_policy d (loadSessionEntry g (p_sessionKey p)) p \<noteq> ''deny'' \<Longrightarrow>
   dedupe g (dedupe_key (p_idempotencyKey p)) = Some cached \<Longrightarrow>
   chat_send_begin d env (Valid p) g =
     (Done (Response (ok cached) (payload cached) (error cached) (Some Cached)),
      g\<lparr>runContexts := (runContexts g)(p_idempotencyKey p \<mapsto> p_sessionKey p),
        effects := effects g @ [LoadSessionEntry (p_sessionKey p)]\<rparr>)"
  by (simp add: chat_send_begin_def Let_def emit_def registerAgentRunContext_def)

lemma begin_start:
  "merge_attachments d p = Inr m \<Longrightarrow>
   session_policy d (loadSessionEntry g (p_sessionKey p)) p \<noteq> ''deny'' \<Longrightarrow>
   dedupe g (dedupe_key (p_idempotencyKey p)) = None \<Longrightarrow>
   chat_send_begin d env (Valid p) g =
     send_start d (loadSessionEntry g (p_sessionKey p)) p m
       (new_session_entry env (ld_entry (loadSessionEntry g (p_sessionKey p))))
       (resolveAgentTimeoutMs d (config g) (p_timeoutMs p))
       (registerAgentRunContext (p_idempotencyKey p) (p_sessionKey p)
          (emit (LoadSessionEntry (p_sessionKey p)) g))"
  by (simp add: chat_send_begin_def Let_def)
     (simp add: loadSessionEntry_def registerAgentRunContext_def emit_def)

lemma send_start_shape:
  "(\<exists>pd g1. send_start d ld p m se t g = (AwaitSave pd, g1) \<and> pd_params pd = p
        \<and> dedupe g1 = dedupe g \<and> disk g1 = disk g
        \<and> effects g1 = effects g @ [SaveSessionStore (pd_storePath pd) (pd_store pd)])
    \<or> (\<exists>pd g1 opts. send_start d ld p m se t g = (AwaitAgent pd, g1) \<and> pd_params pd = p
        \<and> dedupe g1 = dedupe g \<and> disk g1 = disk g
        \<and> effects g1 = effects g @ [AgentCommand opts] \<and> ao_runId opts = p_idempotencyKey p)"
  by (simp add: send_start_def Let_def invoke_agent_def emit_def addChatRun_def agent_opts_of_def
        split: option.splits)

lemma settled_dedupe:
  "dedupe (snd (chat_send_settled out t pd g)) =
     (dedupe g)(dedupe_key (p_idempotencyKey (pd_params pd)) \<mapsto>
        terminal_entry out t (p_idempotencyKey (pd_params pd)))"
  by (cases out) (simp_all add: chat_send_settled_def send_succeed_def send_fail_def
        send_finally_def Let_def terminal_entry_def)

lemma settled_response:
  "replays (terminal_entry out t (p_idempotencyKey (pd_params pd)))
     (fst (chat_send_settled out t pd g))
   \<and> is_terminal (fst (chat_send_settled out t pd g))"
  by (cases out) (simp_all add: chat_send_settled_def send_succeed_def send_fail_def
        send_finally_def Let_def terminal_entry_def)

lemma settled_frame:
  "effects (snd (chat_send_settled out t pd g)) = effects g"
  "disk (snd (chat_send_settled out t pd g)) = disk g"
  "chatAbortControllers (snd (chat_send_settled out t pd g)) =
     (chatAbortControllers g)(p_idempotencyKey (pd_params pd) := None)"
  by (cases out; simp add: chat_send_settled_def send_succeed_def send_fail_def
        send_finally_def Let_def)+

lemma saved_resolved:
  "chat_send_saved d Resolved t pd g =
     (AwaitAgent pd,
      emit (AgentCommand (agent_opts_of d pd)) (saveSessionStore (pd_storePath pd) (pd_store pd) g))"
  by (simp add: chat_send_saved_def invoke_agent_def)

lemma saved_rejected:
  "chat_send_saved d (Rejected err) t pd g =
     (Done (fst (chat_send_settled (Rejected err) t pd g)),
      snd (chat_send_settled (Rejected err) t pd g))"
  by (simp add: chat_send_saved_def chat_send_settled_def split: prod.splits)

lemma executor_calls_emit:
  "executor_calls k (emit e g) = executor_calls k g + (if is_executor_call k e then 1 else 0)"
  by (simp add: executor_calls_def emit_def)

lemma completion_save:
  "run_to_completion d re (AwaitSave pd) g =
     (case re_save re of
        Resolved \<Rightarrow>
          chat_send_settled (re_agent re) (re_doneAt re) pd
            (emit (AgentCommand (agent_opts_of d pd))
               (saveSessionStore (pd_storePath pd) (pd_store pd) g))
      | Rejected err \<Rightarrow> chat_send_settled (Rejected err) (re_doneAt re) pd g)"
  by (cases "re_save re") (simp_all add: saved_resolved saved_rejected)

declare run_to_completion.simps(3) [simp del]

lemma completion_shape:
  assumes "st = AwaitSave pd \<or> st = AwaitAgent pd"
  shows "\<exists>c. dedupe (snd (run_to_completion d re st g)) =
               (dedupe g)(dedupe_key (p_idempotencyKey (pd_params pd)) \<mapsto> c)
           \<and> replays c (fst (run_to_completion d re st g))
           \<and> is_terminal (fst (run_to_completion d re st g))
           \<and> executor_calls k (snd (run_to_completion d re st g)) \<le>
               executor_calls k g + (if st = AwaitSave pd then 1 else 0)
           \<and> (k \<noteq> p_idempotencyKey (pd_params pd) \<longrightarrow>
                executor_calls k (snd (run_to_completion d re st g)) = executor_calls k g)"
proof -
  let ?key = "p_idempotencyKey (pd_params pd)"
  from assms show ?thesis
  proof
    assume s: "st = AwaitAgent pd"
    show ?thesis
      unfolding s
      by (rule exI [of _ "terminal_entry (re_agent re) (re_doneAt re) ?key"])
         (simp add: settled_dedupe settled_response executor_calls_def settled_frame)
  next
    assume s: "st = AwaitSave pd"
    show ?thesis
    proof (cases "re_save re")
      case Resolved
      then have eq: "run_to_completion d re (AwaitSave pd) g =
          chat_send_settled (re_agent re) (re_doneAt re) pd
            (emit (AgentCommand (agent_opts_of d pd))
               (saveSessionStore (pd_storePath pd) (pd_store pd) g))"
        by (simp only: completion_save settled.case)
      show ?thesis
        unfolding s eq
        by (intro exI [of _ "terminal_entry (re_agent re) (re_doneAt re) ?key"])
           (simp add: settled_dedupe settled_response executor_calls_def
              settled_frame emit_def saveSessionStore_def agent_opts_of_def)
    next
      case (Rejected err)
      then have eq: "run_to_completion d re (AwaitSave pd) g =
          chat_send_settled (Rejected err) (re_doneAt re) pd g"
        by (simp only: completion_save settled.case)
      show ?thesis
        unfolding s eq
        by (intro exI [of _ "terminal_entry (Rejected err) (re_doneAt re) ?key"])
           (simp add: settled_dedupe settled_response executor_calls_def settled_frame)
    qed
  qed
qed

lemma checked_frame:
  "dedupe (registerAgentRunContext r sk (emit e g)) = dedupe g"
  "disk (registerAgentRunContext r sk (emit e g)) = disk g"
  "effects (registerAgentRunContext r sk (emit e g)) = effects g @ [e]"
  "chatAbortControllers (registerAgentRunContext r sk (emit e g)) = chatAbortControllers g"
  by (simp_all add: registerAgentRunContext_def emit_def)

lemma chat_send_outcome:
  fixes d :: "('cfg, 'msg, 'num) deps" and g :: "('cfg, 'msg) gateway"
    and re :: run_env and params :: "'num send_params validated"
  defines "R \<equiv> chat_send d re params g"
  shows "(\<not> is_terminal (fst R) \<and> dedupe (snd R) = dedupe g
            \<and> executor_calls k (snd R) = executor_calls k g)
       \<or> (\<exists>p c. params = Valid p \<and> dedupe g (dedupe_key (p_idempotencyKey p)) = Some c
            \<and> replays c (fst R) \<and> dedupe (snd R) = dedupe g
            \<and> executor_calls k (snd R) = executor_calls k g)
       \<or> (\<exists>p c. params = Valid p \<and> dedupe g (dedupe_key (p_idempotencyKey p)) = None
            \<and> replays c (fst R)
            \<and> dedupe (snd R) = (dedupe g)(dedupe_key (p_idempotencyKey p) \<mapsto> c)
            \<and> executor_calls k (snd R) \<le> executor_calls k g + 1
            \<and> (k \<noteq> p_idempotencyKey p \<longrightarrow> executor_calls k (snd R) = executor_calls k g))"
proof (cases params)
  case (Invalid errs)
  then show ?thesis
    by (simp add: R_def chat_send_def begin_invalid)
next
  case (Valid p)
  let ?gc = "registerAgentRunContext (p_idempotencyKey p) (p_sessionKey p)
               (emit (LoadSessionEntry (p_sessionKey p)) g)"
  show ?thesis
  proof (cases "merge_attachments d p")
    case (Inl err)
    then show ?thesis
      by (simp add: R_def Valid chat_send_def begin_merge_fail)
  next
    case (Inr m)
    show ?thesis
    proof (cases "session_policy d (loadSessionEntry g (p_sessionKey p)) p = ''deny''")
      case True
      then show ?thesis
        by (simp add: R_def Valid chat_send_def begin_deny [OF Inr] executor_calls_def)
    next
      case allowed: False
      show ?thesis
      proof (cases "dedupe g (dedupe_key (p_idempotencyKey p))")
        case (Some c)
        have "R = (Response (ok c) (payload c) (error c) (Some Cached),
                   g\<lparr>runContexts := (runContexts g)(p_idempotencyKey p \<mapsto> p_sessionKey p),
                     effects := effects g @ [LoadSessionEntry (p_sessionKey p)]\<rparr>)"
          by (simp add: R_def Valid chat_send_def begin_cached [OF Inr allowed Some])
        with Some Valid show ?thesis
          by (simp add: executor_calls_def)
      next
        case None
        let ?start = "send_start d (loadSessionEntry g (p_sessionKey p)) p m
            (new_session_entry (re_env re) (ld_entry (loadSessionEntry g (p_sessionKey p))))
            (resolveAgentTimeoutMs d (config g) (p_timeoutMs p)) ?gc"
        have R: "R = run_to_completion d re (fst ?start) (snd ?start)"
          by (simp add: R_def Valid chat_send_def begin_start [OF Inr allowed None]
                split: prod.splits)
        from send_start_shape [of d "loadSessionEntry g (p_sessionKey p)" p m
            "new_session_entry (re_env re) (ld_entry (loadSessionEntry g (p_sessionKey p)))"
            "resolveAgentTimeoutMs d (config g) (p_timeoutMs p)" ?gc]
        consider (save) pd g1 where "?start = (AwaitSave pd, g1)" "pd_params pd = p"
            "dedupe g1 = dedupe g" "executor_calls k g1 = executor_calls k g"
          | (agent) pd g1 where "?start = (AwaitAgent pd, g1)" "pd_params pd = p"
            "dedupe g1 = dedupe g"
            "executor_calls k g1 = executor_calls k g + (if k = p_idempotencyKey p then 1 else 0)"
          by (auto simp: checked_frame executor_calls_def)
        then have "\<exists>c. replays c (fst R)
            \<and> dedupe (snd R) = (dedupe g)(dedupe_key (p_idempotencyKey p) \<mapsto> c)
            \<and> executor_calls k (snd R) \<le> executor_calls k g + 1
            \<and> (k \<noteq> p_idempotencyKey p \<longrightarrow> executor_calls k (snd R) = executor_calls k g)"
        proof cases
          case save
          from completion_shape [of "AwaitSave pd" pd d re g1 k] save R
          show ?thesis by auto
        next
          case agent
          from completion_shape [of "AwaitAgent pd" pd d re g1 k] agent R
          show ?thesis by auto
        qed
        with None Valid show ?thesis by blast
      qed
    qed
  qed
qed

subsection \<open>chat.abort\<close>

lemma chat_abort_invalid:
  "chat_abort (Invalid errs) g =
     (Response False None
        (Some (errorShape INVALID_REQUEST (''invalid chat.abort params: '' @ errs))) None, g)"
  by (simp add: chat_abort_def)

lemma chat_abort_absent:
  "chatAbortControllers g (ab_runId p) = None \<Longrightarrow>
   chat_abort (Valid p) g = (Response True (Some (AbortPayload True False)) None None, g)"
  by (simp add: chat_abort_def)

lemma chat_abort_mismatch:
  "chatAbortControllers g (ab_runId p) = Some active \<Longrightarrow>
   ae_sessionKey active \<noteq> ab_sessionKey p \<Longrightarrow>
   chat_abort (Valid p) g =
     (Response False None
        (Some (errorShape INVALID_REQUEST ''runId does not match sessionKey'')) None, g)"
  by (simp add: chat_abort_def)

lemma chat_abort_match:
  "chatAbortControllers g (ab_runId p) = Some active \<Longrightarrow>
   ae_sessionKey active = ab_sessionKey p \<Longrightarrow>
   chat_abort (Valid p) g =
     (Response True (Some (AbortPayload True True)) None None,
      g\<lparr>chatAbortControllers := (chatAbortControllers g)(ab_runId p := None),
        chatRunBuffers := (chatRunBuffers g)(ab_runId p := None),
        chatDeltaSentAt := (chatDeltaSentAt g)(ab_runId p := None),
        chatRuns := filter (\<lambda>(k, e). \<not> (k = ab_runId p \<and> cr_clientRunId e = ab_runId p
                               \<and> cr_sessionKey e = ab_sessionKey p)) (chatRuns g),
        aborted := insert (controller active) (aborted g),
        effects := effects g @
          [ControllerAbort (controller active),
           Broadcast ''chat'' (aborted_event g (ab_runId p) (ab_sessionKey p)),
           BridgeSendToSession (ab_sessionKey p) ''chat''
             (aborted_event g (ab_runId p) (ab_sessionKey p))]\<rparr>)"
  by (simp add: chat_abort_def Let_def emit_def removeChatRun_def aborted_event_def abort_seq_def)

lemma chat_abort_frame:
  "dedupe (snd (chat_abort params g)) = dedupe g"
  "disk (snd (chat_abort params g)) = disk g"
  "executor_calls k (snd (chat_abort params g)) = executor_calls k g"
proof -
  consider (invalid) errs where "params = Invalid errs"
    | (absent) p where "params = Valid p" "chatAbortControllers g (ab_runId p) = None"
    | (mismatch) p a where "params = Valid p" "chatAbortControllers g (ab_runId p) = Some a"
        "ae_sessionKey a \<noteq> ab_sessionKey p"
    | (match) p a where "params = Valid p" "chatAbortControllers g (ab_runId p) = Some a"
        "ae_sessionKey a = ab_sessionKey p"
    by (cases params) auto
  then have "dedupe (snd (chat_abort params g)) = dedupe g
      \<and> disk (snd (chat_abort params g)) = disk g
      \<and> executor_calls k (snd (chat_abort params g)) = executor_calls k g"
  proof cases
    case invalid then show ?thesis by (simp add: chat_abort_invalid)
  next
    case absent then show ?thesis by (simp add: chat_abort_absent)
  next
    case mismatch then show ?thesis by (simp add: chat_abort_mismatch)
  next
    case match then show ?thesis by (simp add: chat_abort_match executor_calls_def)
  qed
  then show "dedupe (snd (chat_abort params g)) = dedupe g"
    "disk (snd (chat_abort params g)) = disk g"
    "executor_calls k (snd (chat_abort params g)) = executor_calls k g"
    by simp_all
qed

subsection \<open>chat.history\<close>

lemma emit_frame:
  "dedupe (emit e g) = dedupe g"
  "disk (emit e g) = disk g"
  "chatAbortControllers (emit e g) = chatAbortControllers g"
  "effects (emit e g) = effects g @ [e]"
  by (simp_all add: emit_def)

lemma history_thinkingLevel_frame:
  "dedupe (snd (history_thinkingLevel d ld g)) = dedupe g"
  "disk (snd (history_thinkingLevel d ld g)) = disk g"
  "executor_calls k (snd (history_thinkingLevel d ld g)) = executor_calls k g"
  by (simp_all add: history_thinkingLevel_def Let_def split_def emit_def executor_calls_def
        split: option.splits)

lemma history_rawMessages_frame:
  "dedupe (snd (history_rawMessages d ld g)) = dedupe g"
  "disk (snd (history_rawMessages d ld g)) = disk g"
  "executor_calls k (snd (history_rawMessages d ld g)) = executor_calls k g"
  by (simp_all add: history_rawMessages_def executor_calls_emit emit_frame split: option.splits)

lemma chat_history_frame:
  "dedupe (snd (chat_history d params g)) = dedupe g"
  "disk (snd (chat_history d params g)) = disk g"
  "executor_calls k (snd (chat_history d params g)) = executor_calls k g"
  by (simp_all add: chat_history_def Let_def split_def history_thinkingLevel_frame
        history_rawMessages_frame executor_calls_emit emit_frame split: validated.splits)

subsection \<open>Responses\<close>

lemma replays_same_outcome:
  "replays c x \<Longrightarrow> replays c y \<Longrightarrow> outcome_of x = outcome_of y"
  by (cases x; cases y) simp

subsection \<open>Handlers in flight together\<close>

lemma filter_update_count:
  "i < length xs \<Longrightarrow>
   length (filter P (xs[i := y])) + (if P (xs ! i) then 1 else 0) =
   length (filter P xs) + (if P y then 1 else 0)"
proof (induction xs arbitrary: i)
  case Nil then show ?case by simp
next
  case (Cons x xs)
  show ?case
  proof (cases i)
    case 0 then show ?thesis by simp
  next
    case (Suc j)
    with Cons.prems have "j < length xs" by simp
    from Cons.IH [OF this] Suc show ?thesis by simp
  qed
qed

lemma filter_drop_nth_count:
  "i < length xs \<Longrightarrow>
   length (filter P (drop_nth i xs)) + (if P (xs ! i) then 1 else 0) = length (filter P xs)"
proof (induction xs arbitrary: i)
  case Nil then show ?case by simp
next
  case (Cons x xs)
  show ?case
  proof (cases i)
    case 0 then show ?thesis by (simp add: drop_nth_def)
  next
    case (Suc j)
    with Cons.prems have "j < length xs" by simp
    from Cons.IH [OF this] Suc show ?thesis by (simp add: drop_nth_def)
  qed
qed

lemma filter_nth_pos:
  "i < length xs \<Longrightarrow> P (xs ! i) \<Longrightarrow> 0 < length (filter P xs)"
  by (metis filter_empty_conv length_greater_0_conv nth_mem)


lemma begin_shape:
  fixes d :: "('cfg, 'msg, 'num) deps" and g :: "('cfg, 'msg) gateway"
    and params :: "'num send_params validated"
  obtains
    (finished) r g1 where "chat_send_begin d env params g = (Done r, g1)"
      "dedupe g1 = dedupe g" "\<And>k. executor_calls k g1 = executor_calls k g"
      "is_terminal r \<Longrightarrow>
         \<exists>p c. params = Valid p \<and> dedupe g (dedupe_key (p_idempotencyKey p)) = Some c
           \<and> replays c r"
  | (save) p pd g1 where "params = Valid p" "chat_send_begin d env params g = (AwaitSave pd, g1)"
      "pd_params pd = p" "dedupe g (dedupe_key (p_idempotencyKey p)) = None"
      "dedupe g1 = dedupe g" "\<And>k. executor_calls k g1 = executor_calls k g"
  | (agent) p pd g1 where "params = Valid p" "chat_send_begin d env params g = (AwaitAgent pd, g1)"
      "pd_params pd = p" "dedupe g (dedupe_key (p_idempotencyKey p)) = None"
      "dedupe g1 = dedupe g"
      "\<And>k. executor_calls k g1 = executor_calls k g + (if p_idempotencyKey p = k then 1 else 0)"
proof (cases params)
  case (Invalid errs)
  show ?thesis
    by (rule finished [OF begin_invalid [of d env errs g, folded Invalid]]) simp_all
next
  case (Valid p)
  show ?thesis
  proof (cases "merge_attachments d p")
    case (Inl err)
    show ?thesis
      by (rule finished [OF begin_merge_fail [OF Inl, of env g, folded Valid]]) simp_all
  next
    case (Inr m)
    show ?thesis
    proof (cases "session_policy d (loadSessionEntry g (p_sessionKey p)) p = ''deny''")
      case True
      show ?thesis
        by (rule finished [OF begin_deny [OF Inr True, of env, folded Valid]])
           (simp_all add: executor_calls_def)
    next
      case allowed: False
      show ?thesis
      proof (cases "dedupe g (dedupe_key (p_idempotencyKey p))")
        case (Some c)
        show ?thesis
          by (rule finished [OF begin_cached [OF Inr allowed Some, of env, folded Valid]])
             (simp_all add: executor_calls_def Some Valid)
      next
        case None
        let ?gc = "registerAgentRunContext (p_idempotencyKey p) (p_sessionKey p)
               (emit (LoadSessionEntry (p_sessionKey p)) g)"
        note b = begin_start [OF Inr allowed None, of env, folded Valid]
        from send_start_shape [of d "loadSessionEntry g (p_sessionKey p)" p m
            "new_session_entry env (ld_entry (loadSessionEntry g (p_sessionKey p)))"
            "resolveAgentTimeoutMs d (config g) (p_timeoutMs p)" ?gc]
        consider (s) pd g1 where "chat_send_begin d env params g = (AwaitSave pd, g1)"
            "pd_params pd = p" "dedupe g1 = dedupe g"
            "effects g1 = effects g @
               [LoadSessionEntry (p_sessionKey p), SaveSessionStore (pd_storePath pd) (pd_store pd)]"
          | (a) pd g1 opts where "chat_send_begin d env params g = (AwaitAgent pd, g1)"
            "pd_params pd = p" "dedupe g1 = dedupe g"
            "effects g1 = effects g @ [LoadSessionEntry (p_sessionKey p), AgentCommand opts]"
            "ao_runId opts = p_idempotencyKey p"
          unfolding b by (auto simp: checked_frame)
        then show ?thesis
        proof cases
          case s
          show ?thesis
            by (rule save [OF Valid s(1,2) None s(3)]) (simp add: executor_calls_def s(4))
        next
          case a
          show ?thesis
            by (rule agent [OF Valid a(1,2) None a(3)]) (simp add: executor_calls_def a(4,5))
        qed
      qed
    qed
  qed
qed


lemma step_cases:
  fixes d :: "('cfg, 'msg, 'num) deps" and s :: "('cfg, 'msg, 'num) server"
  obtains
    (quiet) rs where
      "suspended (step d e s) = suspended s" "dedupe (gw (step d e s)) = dedupe (gw s)"
      "\<And>k. executor_calls k (gw (step d e s)) = executor_calls k (gw s)"
      "replies (step d e s) = replies s @ rs"
      "\<And>k x. x \<in> set rs \<Longrightarrow> reports k x \<Longrightarrow>
         \<exists>c. dedupe (gw s) (dedupe_key k) = Some c \<and> replays c (snd x)"
  | (start) st key where
      "suspended (step d e s) = suspended s @ [st]" "step_key st = Some key"
      "dedupe (gw s) (dedupe_key key) = None" "dedupe (gw (step d e s)) = dedupe (gw s)"
      "\<And>k. executor_calls k (gw (step d e s)) =
         executor_calls k (gw s) + (if key = k \<and> \<not> awaits_save k st then 1 else 0)"
      "replies (step d e s) = replies s"
  | (resolve) i pd where
      "i < length (suspended s)" "suspended s ! i = AwaitSave pd"
      "suspended (step d e s) = (suspended s)[i := AwaitAgent pd]"
      "dedupe (gw (step d e s)) = dedupe (gw s)"
      "\<And>k. executor_calls k (gw (step d e s)) =
         executor_calls k (gw s) + (if p_idempotencyKey (pd_params pd) = k then 1 else 0)"
      "replies (step d e s) = replies s"
  | (settle) i key out t r where
      "i < length (suspended s)" "step_key (suspended s ! i) = Some key"
      "suspended (step d e s) = drop_nth i (suspended s)"
      "dedupe (gw (step d e s)) = (dedupe (gw s))(dedupe_key key \<mapsto> terminal_entry out t key)"
      "\<And>k. executor_calls k (gw (step d e s)) = executor_calls k (gw s)"
      "replies (step d e s) = replies s @ [(Some key, r)]"
      "replays (terminal_entry out t key) r" "is_terminal r"
proof (cases e)
  case (Arrives inc)
  show ?thesis
  proof (cases inc)
    case (ChatSend env params)
    show ?thesis
    proof (cases rule: begin_shape [of d env params "gw s"])
      case (finished r g1)
      show ?thesis
      proof (rule quiet [of "[(send_tag params, r)]"])
        fix k x
        assume "x \<in> set [(send_tag params, r)]" "reports k x"
        then have x: "x = (send_tag params, r)" "send_tag params = Some k" "is_terminal r"
          by auto
        from finished(4) [OF x(3)] obtain p c where "params = Valid p"
          "dedupe (gw s) (dedupe_key (p_idempotencyKey p)) = Some c" "replays c r" by blast
        with x show "\<exists>c. dedupe (gw s) (dedupe_key k) = Some c \<and> replays c (snd x)"
          by auto
      qed (simp_all add: Arrives ChatSend finished)
    next
      case (save p pd g1)
      show ?thesis
        by (rule start [of "AwaitSave pd" "p_idempotencyKey p"])
           (simp_all add: Arrives ChatSend save(1) save(2) [unfolded save(1)] save(3-))
    next
      case (agent p pd g1)
      show ?thesis
        by (rule start [of "AwaitAgent pd" "p_idempotencyKey p"])
           (simp_all add: Arrives ChatSend agent(1) agent(2) [unfolded agent(1)] agent(3-))
    qed
  next
    case (ChatAbort params)
    show ?thesis
      by (rule quiet [of "[(None, fst (chat_abort params (gw s)))]"])
         (simp_all add: Arrives ChatAbort split_def chat_abort_frame)
  next
    case (ChatHistory params)
    show ?thesis
      by (rule quiet [of "[(None, fst (chat_history d params (gw s)))]"])
         (simp_all add: Arrives ChatHistory split_def chat_history_frame)
  qed
next
  case (SaveSettles i outcome t)
  consider (hit) pd where "i < length (suspended s)" "suspended s ! i = AwaitSave pd"
    | (miss) "step d e s = s"
    by (cases "i < length (suspended s)"; cases "suspended s ! i")
       (auto simp: SaveSettles)
  then show ?thesis
  proof cases
    case miss
    show ?thesis by (rule quiet [of "[]"]) (simp_all add: miss)
  next
    case (hit pd)
    show ?thesis
    proof (cases outcome)
      case Resolved
      show ?thesis
        by (rule resolve [OF hit])
           (simp_all add: SaveSettles hit Resolved saved_resolved executor_calls_emit
              emit_frame saveSessionStore_def executor_calls_def agent_opts_of_def)
    next
      case (Rejected err)
      show ?thesis
        by (rule settle [of i "p_idempotencyKey (pd_params pd)" "Rejected err" t
                "fst (chat_send_settled (Rejected err) t pd (gw s))"])
           (simp_all add: SaveSettles hit Rejected saved_rejected settled_dedupe
              settled_response executor_calls_def settled_frame)
    qed
  qed
next
  case (AgentSettles i outcome t)
  consider (hit) pd where "i < length (suspended s)" "suspended s ! i = AwaitAgent pd"
    | (miss) "step d e s = s"
    by (cases "i < length (suspended s)"; cases "suspended s ! i")
       (auto simp: AgentSettles)
  then show ?thesis
  proof cases
    case miss
    show ?thesis by (rule quiet [of "[]"]) (simp_all add: miss)
  next
    case (hit pd)
    show ?thesis
      by (rule settle [of i "p_idempotencyKey (pd_params pd)" outcome t
              "fst (chat_send_settled outcome t pd (gw s))"])
         (simp_all add: AgentSettles hit split_def settled_dedupe
            settled_response executor_calls_def settled_frame)
  qed
qed


lemma awaits_save_key: "awaits_save k st \<Longrightarrow> step_key st = Some k"
  by (cases st) auto

lemma step_budget:
  fixes d :: "('cfg, 'msg, 'num) deps" and s :: "('cfg, 'msg, 'num) server"
  assumes "runs_in_flight k (step d e s) \<le> 1"
  shows "call_budget k (step d e s) \<le> call_budget k s"
proof (cases rule: step_cases [of d e s])
  case (quiet rs)
  then show ?thesis
    by (simp add: call_budget_def runs_in_flight_def saves_in_flight_def)
next
  case (start st key)
  show ?thesis
  proof (cases "key = k")
    case True
    with assms start have "runs_in_flight k s = 0"
      by (simp add: runs_in_flight_def)
    with True start show ?thesis
      by (simp add: call_budget_def runs_in_flight_def saves_in_flight_def)
  next
    case False
    with start have "\<not> awaits_save k st" "step_key st \<noteq> Some k"
      by (auto dest: awaits_save_key)
    with False start show ?thesis
      by (simp add: call_budget_def runs_in_flight_def saves_in_flight_def)
  qed
next
  case (resolve i pd)
  from filter_update_count [OF resolve(1), of "awaits_save k" "AwaitAgent pd"]
    filter_update_count [OF resolve(1), of "\<lambda>st. step_key st = Some k" "AwaitAgent pd"]
    resolve
  show ?thesis
    by (simp add: call_budget_def runs_in_flight_def saves_in_flight_def split: if_splits)
next
  case (settle i key out t r)
  from settle(2) have a: "awaits_save k (suspended s ! i) \<Longrightarrow> key = k"
    by (auto dest: awaits_save_key)
  from filter_drop_nth_count [OF settle(1), of "awaits_save k"]
    filter_drop_nth_count [OF settle(1), of "\<lambda>st. step_key st = Some k"]
    settle a
  show ?thesis
    by (cases "key = k")
       (simp_all add: call_budget_def runs_in_flight_def saves_in_flight_def split: if_splits)
qed

lemma step_calls_mono:
  fixes d :: "('cfg, 'msg, 'num) deps" and s :: "('cfg, 'msg, 'num) server"
  shows "executor_calls k (gw s) \<le> executor_calls k (gw (step d e s))"
  by (cases rule: step_cases [of d e s]) simp_all

lemma step_follow_cache:
  fixes d :: "('cfg, 'msg, 'num) deps" and s :: "('cfg, 'msg, 'num) server"
  assumes one: "runs_in_flight k s \<le> 1" and inv: "replies_follow_cache k s"
  shows "replies_follow_cache k (step d e s)"
proof (cases rule: step_cases [of d e s])
  case (quiet rs)
  have new: "\<And>x. x \<in> set rs \<Longrightarrow> reports k x \<Longrightarrow>
      \<exists>c. dedupe (gw s) (dedupe_key k) = Some c \<and> replays c (snd x)"
    by (rule quiet(5))
  show ?thesis
  proof (cases "dedupe (gw s) (dedupe_key k)")
    case None
    with new have "\<forall>x \<in> set rs. \<not> reports k x" by fastforce
    with inv None quiet(1-4) show ?thesis
      by (simp add: replies_follow_cache_def ball_Un)
  next
    case (Some c)
    with new have "\<forall>x \<in> set rs. reports k x \<longrightarrow> replays c (snd x)" by fastforce
    with inv Some quiet(1-4) show ?thesis
      by (simp add: replies_follow_cache_def runs_in_flight_def ball_Un)
  qed
next
  case (start st key)
  show ?thesis
  proof (cases "dedupe (gw s) (dedupe_key k)")
    case None
    with inv start show ?thesis
      by (simp add: replies_follow_cache_def)
  next
    case (Some c)
    with start have "key \<noteq> k" by auto
    with start have "step_key st \<noteq> Some k" by simp
    with inv start Some show ?thesis
      by (simp add: replies_follow_cache_def runs_in_flight_def)
  qed
next
  case (resolve i pd)
  from filter_update_count [OF resolve(1), of "\<lambda>st. step_key st = Some k" "AwaitAgent pd"]
    resolve
  have "runs_in_flight k (step d e s) = runs_in_flight k s"
    by (simp add: runs_in_flight_def)
  with inv resolve show ?thesis
    by (simp add: replies_follow_cache_def split: option.splits)
next
  case (settle i key out t r)
  note cnt = filter_drop_nth_count [OF settle(1), of "\<lambda>st. step_key st = Some k"]
  show ?thesis
  proof (cases "key = k")
    case False
    with cnt settle have "runs_in_flight k (step d e s) = runs_in_flight k s"
      by (simp add: runs_in_flight_def)
    with inv settle False show ?thesis
      by (cases "dedupe (gw s) (dedupe_key k)")
         (auto simp: replies_follow_cache_def)
  next
    case True
    from filter_nth_pos [OF settle(1), of "\<lambda>st. step_key st = Some k"] settle(2) True
    have pos: "0 < runs_in_flight k s"
      by (simp add: runs_in_flight_def)
    with inv have none: "dedupe (gw s) (dedupe_key k) = None"
      by (cases "dedupe (gw s) (dedupe_key k)") (auto simp: replies_follow_cache_def)
    from cnt settle(2) True
    have "length (filter (\<lambda>st. step_key st = Some k) (drop_nth i (suspended s))) + 1 =
        length (filter (\<lambda>st. step_key st = Some k) (suspended s))"
      by simp
    with one have "length (filter (\<lambda>st. step_key st = Some k) (drop_nth i (suspended s))) = 0"
      unfolding runs_in_flight_def by linarith
    then have "runs_in_flight k (step d e s) = 0"
      by (simp add: runs_in_flight_def settle(3))
    with inv none settle True show ?thesis
      by (auto simp: replies_follow_cache_def)
  qed
qed

lemma step_keeps_entry:
  fixes d :: "('cfg, 'msg, 'num) deps" and s :: "('cfg, 'msg, 'num) server"
  assumes "dedupe (gw s) (dedupe_key k) = Some c" and "runs_in_flight k s = 0"
  shows "dedupe (gw (step d e s)) (dedupe_key k) = Some c \<and> runs_in_flight k (step d e s) = 0"
proof (cases rule: step_cases [of d e s])
  case (quiet rs)
  with assms show ?thesis by (simp add: runs_in_flight_def)
next
  case (start st key)
  with assms have "key \<noteq> k" by auto
  with start have "step_key st \<noteq> Some k" by simp
  with assms start show ?thesis by (simp add: runs_in_flight_def)
next
  case (resolve i pd)
  from filter_update_count [OF resolve(1), of "\<lambda>st. step_key st = Some k" "AwaitAgent pd"]
    resolve assms
  show ?thesis by (simp add: runs_in_flight_def)
next
  case (settle i key out t r)
  from filter_nth_pos [OF settle(1), of "\<lambda>st. step_key st = Some k"] settle(2) assms(2)
  have "key \<noteq> k" by (auto simp: runs_in_flight_def)
  with filter_drop_nth_count [OF settle(1), of "\<lambda>st. step_key st = Some k"] settle assms
  show ?thesis by (simp add: runs_in_flight_def)
qed

lemma step_entry_origin:
  fixes d :: "('cfg, 'msg, 'num) deps" and s :: "('cfg, 'msg, 'num) server"
  shows "dedupe (gw (step d e s)) (dedupe_key k) = dedupe (gw s) (dedupe_key k)
     \<or> (\<exists>out t. dedupe (gw (step d e s)) (dedupe_key k) = Some (terminal_entry out t k))"
  by (cases rule: step_cases [of d e s]) auto


lemma one_run_now: "one_run_at_a_time d k es s \<Longrightarrow> runs_in_flight k s \<le> 1"
  by (cases es) simp_all

lemma run_events_append:
  "run_events d (es1 @ es2) s = run_events d es2 (run_events d es1 s)"
  by (induction es1 arbitrary: s) simp_all

lemma one_run_append:
  "one_run_at_a_time d k (es1 @ es2) s \<Longrightarrow> one_run_at_a_time d k es1 s"
proof (induction es1 arbitrary: s)
  case Nil
  then show ?case by (auto dest: one_run_now)
next
  case (Cons e es1)
  then show ?case by simp
qed

lemma run_budget:
  "one_run_at_a_time d k es s \<Longrightarrow> call_budget k (run_events d es s) \<le> call_budget k s"
proof (induction es arbitrary: s)
  case Nil
  show ?case by simp
next
  case (Cons e es)
  from Cons.prems have rest: "one_run_at_a_time d k es (step d e s)" by simp
  then have "runs_in_flight k (step d e s) \<le> 1" by (rule one_run_now)
  then have "call_budget k (step d e s) \<le> call_budget k s" by (rule step_budget)
  with Cons.IH [OF rest] show ?case by simp
qed

lemma run_calls_mono:
  "executor_calls k (gw s) \<le> executor_calls k (gw (run_events d es s))"
proof (induction es arbitrary: s)
  case Nil
  show ?case by simp
next
  case (Cons e es)
  from step_calls_mono [of k s d e] Cons.IH [of "step d e s"] show ?case by simp
qed

lemma run_follow_cache:
  "one_run_at_a_time d k es s \<Longrightarrow> replies_follow_cache k s \<Longrightarrow>
   replies_follow_cache k (run_events d es s)"
proof (induction es arbitrary: s)
  case Nil
  then show ?case by simp
next
  case (Cons e es)
  from Cons.prems have "runs_in_flight k s \<le> 1" "one_run_at_a_time d k es (step d e s)"
    by simp_all
  with Cons.prems(2) Cons.IH [of "step d e s"] show ?case
    by (simp add: step_follow_cache)
qed

lemma run_keeps_entry:
  "dedupe (gw s) (dedupe_key k) = Some c \<Longrightarrow> runs_in_flight k s = 0 \<Longrightarrow>
   dedupe (gw (run_events d es s)) (dedupe_key k) = Some c
     \<and> runs_in_flight k (run_events d es s) = 0"
proof (induction es arbitrary: s)
  case Nil
  then show ?case by simp
next
  case (Cons e es)
  from step_keeps_entry [OF Cons.prems, of d e] Cons.IH [of "step d e s"] show ?case
    by simp
qed

lemma run_entry_origin:
  "dedupe (gw (run_events d es s)) (dedupe_key k) = dedupe (gw s) (dedupe_key k)
     \<or> (\<exists>out t. dedupe (gw (run_events d es s)) (dedupe_key k) = Some (terminal_entry out t k))"
proof (induction es arbitrary: s)
  case Nil
  show ?case by simp
next
  case (Cons e es)
  from Cons.IH [of "step d e s"] show ?case
  proof
    assume same: "dedupe (gw (run_events d es (step d e s))) (dedupe_key k) =
        dedupe (gw (step d e s)) (dedupe_key k)"
    from step_entry_origin [of d e s k] show ?thesis
    proof
      assume "dedupe (gw (step d e s)) (dedupe_key k) = dedupe (gw s) (dedupe_key k)"
      with same show ?thesis by simp
    next
      assume "\<exists>out t. dedupe (gw (step d e s)) (dedupe_key k) = Some (terminal_entry out t k)"
      with same show ?thesis by simp
    qed
  next
    assume "\<exists>out t. dedupe (gw (run_events d es (step d e s))) (dedupe_key k) =
        Some (terminal_entry out t k)"
    then show ?thesis by simp
  qed
qed

lemma follow_cache_agree:
  assumes "replies_follow_cache k s" "x \<in> set (replies s)" "y \<in> set (replies s)"
    "reports k x" "reports k y"
  shows "outcome_of (snd x) = outcome_of (snd y)"
proof (cases "dedupe (gw s) (dedupe_key k)")
  case None
  with assms show ?thesis by (simp add: replies_follow_cache_def)
next
  case (Some c)
  with assms have "replays c (snd x)" "replays c (snd y)"
    by (simp_all add: replies_follow_cache_def)
  then show ?thesis by (rule replays_same_outcome)
qed

lemma idle_follow_cache: "replies_follow_cache k (idle g)"
  by (simp add: replies_follow_cache_def idle_def runs_in_flight_def split: option.splits)

lemma idle_budget:
  "call_budget k (idle g) =
     executor_calls k g + (if dedupe g (dedupe_key k) = None then 1 else 0)"
  by (simp add: call_budget_def idle_def runs_in_flight_def saves_in_flight_def)

lemma cached_entered:
  fixes d :: "('cfg, 'msg, 'num) deps" and s :: "('cfg, 'msg, 'num) server"
  assumes "merge_attachments d p = Inr m"
    and "session_policy d (loadSessionEntry (gw s) (p_sessionKey p)) p \<noteq> ''deny''"
    and "dedupe (gw s) (dedupe_key (p_idempotencyKey p)) = Some cached"
  shows "step d (Arrives (ChatSend env (Valid p))) s =
      s\<lparr>gw := registerAgentRunContext (p_idempotencyKey p) (p_sessionKey p)
                (emit (LoadSessionEntry (p_sessionKey p)) (gw s)),
        replies := replies s @
          [(Some (p_idempotencyKey p),
            Response (ok cached) (payload cached) (error cached) (Some Cached))]\<rparr>"
  by (simp add: begin_cached [OF assms] registerAgentRunContext_def emit_def)

section \<open>Claims about chat.abort\<close>

text \<open>
  C2. A chat.abort whose runId names an active run recorded under the request's sessionKey
  fires the run's abort controller, deletes the run from the abort controllers, the
  buffered deltas and the delta timestamps, ends its queue membership, sends the event
  \<^verbatim>\<open>{runId, sessionKey, seq, state: "aborted"}\<close> first to all observers and then to the
  session's observers, with seq one above the sequence number recorded for the run (0 when
  none is recorded), and responds ok with \<^verbatim>\<open>{ok: true, aborted: true}\<close>.
\<close>

theorem chat_abort_active_run:
  assumes "chatAbortControllers g (ab_runId p) = Some active"
    and "ae_sessionKey active = ab_sessionKey p"
  shows "fst (chat_abort (Valid p) g) = Response True (Some (AbortPayload True True)) None None
    \<and> controller active \<in> aborted (snd (chat_abort (Valid p) g))
    \<and> chatAbortControllers (snd (chat_abort (Valid p) g)) (ab_runId p) = None
    \<and> chatRunBuffers (snd (chat_abort (Valid p) g)) (ab_runId p) = None
    \<and> chatDeltaSentAt (snd (chat_abort (Valid p) g)) (ab_runId p) = None
    \<and> (ab_runId p, \<lparr>cr_sessionKey = ab_sessionKey p, cr_clientRunId = ab_runId p\<rparr>)
         \<notin> set (chatRuns (snd (chat_abort (Valid p) g)))
    \<and> effects (snd (chat_abort (Valid p) g)) =
        effects g @
        [ControllerAbort (controller active),
         Broadcast ''chat''
           \<lparr>ev_runId = ab_runId p, ev_sessionKey = ab_sessionKey p,
            ev_seq = (case agentRunSeq g (ab_runId p) of None \<Rightarrow> 0 | Some n \<Rightarrow> n) + 1,
            ev_state = ''aborted''\<rparr>,
         BridgeSendToSession (ab_sessionKey p) ''chat''
           \<lparr>ev_runId = ab_runId p, ev_sessionKey = ab_sessionKey p,
            ev_seq = (case agentRunSeq g (ab_runId p) of None \<Rightarrow> 0 | Some n \<Rightarrow> n) + 1,
            ev_state = ''aborted''\<rparr>]"
  using assms by (simp add: chat_abort_match aborted_event_def abort_seq_def)

theorem chat_abort_active_run_witness:
  "chatAbortControllers example_live ''idem-1'' =
     Some \<lparr>controller = 0, ae_sessionId = ''sess-main'', ae_sessionKey = ''main''\<rparr>
   \<and> fst (chat_abort (Valid \<lparr>ab_sessionKey = ''main'', ab_runId = ''idem-1''\<rparr>) example_live) =
       Response True (Some (AbortPayload True True)) None None
   \<and> 0 \<in> aborted (snd (chat_abort (Valid \<lparr>ab_sessionKey = ''main'', ab_runId = ''idem-1''\<rparr>)
                          example_live))
   \<and> chatRuns (snd (chat_abort (Valid \<lparr>ab_sessionKey = ''main'', ab_runId = ''idem-1''\<rparr>)
                      example_live)) = []
   \<and> effects (snd (chat_abort (Valid \<lparr>ab_sessionKey = ''main'', ab_runId = ''idem-1''\<rparr>)
                     example_live)) =
       [ControllerAbort 0,
        Broadcast ''chat''
          \<lparr>ev_runId = ''idem-1'', ev_sessionKey = ''main'', ev_seq = 5, ev_state = ''aborted''\<rparr>,
        BridgeSendToSession ''main'' ''chat''
          \<lparr>ev_runId = ''idem-1'', ev_sessionKey = ''main'', ev_seq = 5, ev_state = ''aborted''\<rparr>]"
  using chat_abort_active_run [of example_live "\<lparr>ab_sessionKey = ''main'', ab_runId = ''idem-1''\<rparr>"
      "\<lparr>controller = 0, ae_sessionId = ''sess-main'', ae_sessionKey = ''main''\<rparr>"]
  by (simp add: example_live_def example_gateway_def chat_abort_match)

text \<open>
  C3. A chat.abort whose runId names an active run recorded under another sessionKey is
  answered INVALID_REQUEST, "runId does not match sessionKey", and leaves the gateway as it
  was: no controller fires, no registry entry goes, no event is sent.
\<close>

theorem chat_abort_session_mismatch:
  assumes "chatAbortControllers g (ab_runId p) = Some active"
    and "ae_sessionKey active \<noteq> ab_sessionKey p"
  shows "chat_abort (Valid p) g =
           (Response False None
              (Some (errorShape INVALID_REQUEST ''runId does not match sessionKey'')) None, g)"
  using assms by (rule chat_abort_mismatch)

theorem chat_abort_session_mismatch_witness:
  "chatAbortControllers example_live ''idem-1'' =
     Some \<lparr>controller = 0, ae_sessionId = ''sess-main'', ae_sessionKey = ''main''\<rparr>
   \<and> ''main'' \<noteq> ''other''
   \<and> chat_abort (Valid \<lparr>ab_sessionKey = ''other'', ab_runId = ''idem-1''\<rparr>) example_live =
       (Response False None
          (Some (errorShape INVALID_REQUEST ''runId does not match sessionKey'')) None,
        example_live)"
  using chat_abort_session_mismatch
      [of example_live "\<lparr>ab_sessionKey = ''other'', ab_runId = ''idem-1''\<rparr>"
        "\<lparr>controller = 0, ae_sessionId = ''sess-main'', ae_sessionKey = ''main''\<rparr>"]
  by (simp add: example_live_def example_gateway_def)

text \<open>
  C8. A chat.abort whose runId has no active run is answered ok with
  \<^verbatim>\<open>{ok: true, aborted: false}\<close> and changes nothing. This is the case for a run id that
  was never started, for a run that has settled (its handler has deleted the entry), and
  for a run that has just been aborted: of two aborts in a row, the first answers
  \<^verbatim>\<open>aborted: true\<close> and the second \<^verbatim>\<open>aborted: false\<close>.
\<close>

theorem chat_abort_no_active_run:
  "(chatAbortControllers g (ab_runId p) = None \<longrightarrow>
      chat_abort (Valid p) g = (Response True (Some (AbortPayload True False)) None None, g))
   \<and> (p_idempotencyKey (pd_params pd) = ab_runId p \<longrightarrow>
        chat_abort (Valid p) (snd (chat_send_settled outcome t pd g)) =
          (Response True (Some (AbortPayload True False)) None None,
           snd (chat_send_settled outcome t pd g)))
   \<and> (chatAbortControllers g (ab_runId p) = Some active \<and> ae_sessionKey active = ab_sessionKey p
        \<and> ab_runId q = ab_runId p \<longrightarrow>
        fst (chat_abort (Valid p) g) = Response True (Some (AbortPayload True True)) None None
        \<and> chat_abort (Valid q) (snd (chat_abort (Valid p) g)) =
            (Response True (Some (AbortPayload True False)) None None,
             snd (chat_abort (Valid p) g)))"
proof (intro conjI impI)
  assume "chatAbortControllers g (ab_runId p) = None"
  then show "chat_abort (Valid p) g =
      (Response True (Some (AbortPayload True False)) None None, g)"
    by (rule chat_abort_absent)
next
  assume "p_idempotencyKey (pd_params pd) = ab_runId p"
  then have "chatAbortControllers (snd (chat_send_settled outcome t pd g)) (ab_runId p) = None"
    by (simp add: settled_frame)
  then show "chat_abort (Valid p) (snd (chat_send_settled outcome t pd g)) =
      (Response True (Some (AbortPayload True False)) None None,
       snd (chat_send_settled outcome t pd g))"
    by (rule chat_abort_absent)
next
  assume a: "chatAbortControllers g (ab_runId p) = Some active
    \<and> ae_sessionKey active = ab_sessionKey p \<and> ab_runId q = ab_runId p"
  then show "fst (chat_abort (Valid p) g) = Response True (Some (AbortPayload True True)) None None"
    by (simp add: chat_abort_match)
  from a have "chatAbortControllers (snd (chat_abort (Valid p) g)) (ab_runId q) = None"
    by (simp add: chat_abort_match)
  then show "chat_abort (Valid q) (snd (chat_abort (Valid p) g)) =
      (Response True (Some (AbortPayload True False)) None None, snd (chat_abort (Valid p) g))"
    by (rule chat_abort_absent)
qed

theorem chat_abort_no_active_run_witness:
  "chatAbortControllers example_gateway ''missing-run'' = None
   \<and> p_idempotencyKey (pd_params example_pending) = ''idem-1''
   \<and> chat_abort (Valid \<lparr>ab_sessionKey = ''main'', ab_runId = ''idem-1''\<rparr>)
         (snd (chat_send_settled Resolved 200 example_pending example_live)) =
       (Response True (Some (AbortPayload True False)) None None,
        snd (chat_send_settled Resolved 200 example_pending example_live))
   \<and> chat_abort (Valid \<lparr>ab_sessionKey = ''main'', ab_runId = ''missing-run''\<rparr>) example_gateway =
       (Response True (Some (AbortPayload True False)) None None, example_gateway)
   \<and> chatAbortControllers example_live ''idem-1'' =
       Some \<lparr>controller = 0, ae_sessionId = ''sess-main'', ae_sessionKey = ''main''\<rparr>
   \<and> fst (chat_abort (Valid \<lparr>ab_sessionKey = ''main'', ab_runId = ''idem-1''\<rparr>) example_live) =
       Response True (Some (AbortPayload True True)) None None
   \<and> fst (chat_abort (Valid \<lparr>ab_sessionKey = ''main'', ab_runId = ''idem-1''\<rparr>)
            (snd (chat_abort (Valid \<lparr>ab_sessionKey = ''main'', ab_runId = ''idem-1''\<rparr>)
                    example_live))) =
       Response True (Some (AbortPayload True False)) None None"
  using chat_abort_no_active_run
      [of example_gateway "\<lparr>ab_sessionKey = ''main'', ab_runId = ''missing-run''\<rparr>"
        example_pending]
    chat_abort_no_active_run
      [of example_live "\<lparr>ab_sessionKey = ''main'', ab_runId = ''idem-1''\<rparr>"
        example_pending Resolved 200
        "\<lparr>controller = 0, ae_sessionId = ''sess-main'', ae_sessionKey = ''main''\<rparr>"
        "\<lparr>ab_sessionKey = ''main'', ab_runId = ''idem-1''\<rparr>"]
  by (simp add: example_live_def example_gateway_def example_pending_def example_send_def)


subsection \<open>chat.history: the two caps\<close>



lemma jsonArrayBytes_Nil: "jsonArrayBytes sz [] = 2"
  by (simp add: jsonArrayBytes_def)

lemma cap_fits:
  "2 \<le> maxBytes \<Longrightarrow> jsonArrayBytes sz (capArrayByJsonBytes sz xs maxBytes) \<le> maxBytes"
  by (induction xs) (simp_all add: jsonArrayBytes_Nil)

lemma cap_suffix: "suffix (capArrayByJsonBytes sz xs maxBytes) xs"
  by (induction xs) (simp_all add: suffix_ConsI)

lemma cap_maximal:
  "suffix ys xs \<Longrightarrow> length (capArrayByJsonBytes sz xs maxBytes) < length ys \<Longrightarrow>
   maxBytes < jsonArrayBytes sz ys"
proof (induction xs)
  case Nil
  then show ?case by simp
next
  case (Cons x xs)
  show ?case
  proof (cases "jsonArrayBytes sz (x # xs) \<le> maxBytes")
    case True
    with Cons.prems show ?thesis
      by (auto dest: suffix_length_le)
  next
    case False
    from Cons.prems(1) have "ys = x # xs \<or> suffix ys xs"
      by (simp add: suffix_Cons)
    then show ?thesis
    proof
      assume "ys = x # xs"
      with False show ?thesis by simp
    next
      assume "suffix ys xs"
      with Cons.IH Cons.prems(2) False show ?thesis by simp
    qed
  qed
qed

lemma chat_history_messages:
  "response_messages (fst (chat_history d (Valid p) g)) =
     capArrayByJsonBytes (jsonUtf8Bytes d)
       (history_window (h_limit p)
          (fst (history_rawMessages d (loadSessionEntry g (h_sessionKey p))
                  (emit (LoadSessionEntry (h_sessionKey p)) g))))
       MAX_CHAT_HISTORY_MESSAGES_BYTES"
  by (simp add: chat_history_def Let_def split_def)

lemma chat_history_invalid_messages:
  "response_messages (fst (chat_history d (Invalid errs) g)) = []"
  by (simp add: chat_history_def)

section \<open>Claims about chat.history\<close>



text \<open>
  C9. The messages of every chat.history response serialize to at most 6 MiB. They are a
  suffix of the count-capped window, so the oldest entries are the ones dropped and the
  order is kept, and no entry is dropped without need: every longer suffix of the window
  exceeds the bound. The byte cap itself is modelled from the spec.
\<close>

theorem chat_history_byte_cap:
  "jsonArrayBytes (jsonUtf8Bytes d) (response_messages (fst (chat_history d params g)))
     \<le> 6 * 1024 * 1024
   \<and> (params = Valid p \<and>
        fst (history_rawMessages d (loadSessionEntry g (h_sessionKey p))
               (emit (LoadSessionEntry (h_sessionKey p)) g)) = raw \<longrightarrow>
        suffix (response_messages (fst (chat_history d params g)))
          (history_window (h_limit p) raw)
        \<and> (suffix ys (history_window (h_limit p) raw)
             \<and> length (response_messages (fst (chat_history d params g))) < length ys \<longrightarrow>
             6 * 1024 * 1024 < jsonArrayBytes (jsonUtf8Bytes d) ys))"
proof (cases params)
  case (Invalid errs)
  then show ?thesis
    by (simp add: chat_history_invalid_messages jsonArrayBytes_Nil)
next
  case (Valid q)
  have "jsonArrayBytes (jsonUtf8Bytes d) (response_messages (fst (chat_history d (Valid q) g)))
      \<le> MAX_CHAT_HISTORY_MESSAGES_BYTES"
    unfolding chat_history_messages
    by (rule cap_fits) (simp add: MAX_CHAT_HISTORY_MESSAGES_BYTES_def)
  then have fits: "jsonArrayBytes (jsonUtf8Bytes d)
      (response_messages (fst (chat_history d params g))) \<le> 6 * 1024 * 1024"
    by (simp add: Valid MAX_CHAT_HISTORY_MESSAGES_BYTES_def)
  have rest: "suffix (response_messages (fst (chat_history d params g)))
          (history_window (h_limit p) raw)
        \<and> (suffix ys (history_window (h_limit p) raw)
             \<and> length (response_messages (fst (chat_history d params g))) < length ys \<longrightarrow>
             6 * 1024 * 1024 < jsonArrayBytes (jsonUtf8Bytes d) ys)"
    if "params = Valid p"
      and "fst (history_rawMessages d (loadSessionEntry g (h_sessionKey p))
               (emit (LoadSessionEntry (h_sessionKey p)) g)) = raw"
  proof -
    have m: "response_messages (fst (chat_history d params g)) =
        capArrayByJsonBytes (jsonUtf8Bytes d) (history_window (h_limit p) raw)
          MAX_CHAT_HISTORY_MESSAGES_BYTES"
      unfolding that(1) that(2) [symmetric] by (rule chat_history_messages)
    have "MAX_CHAT_HISTORY_MESSAGES_BYTES < jsonArrayBytes (jsonUtf8Bytes d) ys"
      if "suffix ys (history_window (h_limit p) raw)"
        "length (response_messages (fst (chat_history d params g))) < length ys"
      using that unfolding m by (rule cap_maximal)
    then show ?thesis
      unfolding m by (simp add: cap_suffix MAX_CHAT_HISTORY_MESSAGES_BYTES_def)
  qed
  from fits rest show ?thesis by blast
qed

theorem chat_history_byte_cap_witness:
  "fst (history_rawMessages example_deps (loadSessionEntry example_gateway ''big'')
          (emit (LoadSessionEntry ''big'') example_gateway)) = [''b0'', ''b1'', ''b2'']
   \<and> history_window None [''b0'', ''b1'', ''b2''] = [''b0'', ''b1'', ''b2'']
   \<and> response_messages
        (fst (chat_history example_deps (Valid \<lparr>h_sessionKey = ''big'', h_limit = None\<rparr>)
                example_gateway)) = [''b1'', ''b2'']
   \<and> jsonArrayBytes (jsonUtf8Bytes example_deps) [''b1'', ''b2''] = 6000003
   \<and> 6 * 1024 * 1024 < jsonArrayBytes (jsonUtf8Bytes example_deps) [''b0'', ''b1'', ''b2'']"
  using chat_history_byte_cap
      [of example_deps "Valid \<lparr>h_sessionKey = ''big'', h_limit = None\<rparr>" example_gateway
        "\<lparr>h_sessionKey = ''big'', h_limit = None\<rparr>" "[''b0'', ''b1'', ''b2'']"
        "[''b0'', ''b1'', ''b2'']"]
  by (simp add: history_rawMessages_def loadSessionEntry_def example_gateway_def
        example_store_def entry_big_def example_deps_def chat_history_messages
        history_window_def jsonArrayBytes_def MAX_CHAT_HISTORY_MESSAGES_BYTES_def)


subsection \<open>chat.send, run to completion\<close>

lemma chat_send_done:
  "chat_send_begin d (re_env re) params g = (Done r, g1) \<Longrightarrow> chat_send d re params g = (r, g1)"
  by (simp add: chat_send_def)

lemma send_start_save:
  assumes "ld_store ld = Some st" and "ld_storePath ld \<noteq> []"
  shows "\<exists>pd g1. send_start d ld p m se t g = (AwaitSave pd, g1)
      \<and> pd_params pd = p \<and> pd_storePath pd = ld_storePath ld
      \<and> pd_store pd = st(p_sessionKey p \<mapsto> se)
      \<and> effects g1 = effects g @ [SaveSessionStore (ld_storePath ld) (st(p_sessionKey p \<mapsto> se))]
      \<and> disk g1 = disk g \<and> dedupe g1 = dedupe g"
  using assms
  by (simp add: send_start_def Let_def emit_def addChatRun_def)

lemma send_start_dedupe:
  "dedupe (snd (send_start d ld p m se t g)) = dedupe g"
  using send_start_shape [of d ld p m se t g] by auto

lemma chat_send_begin_dedupe:
  "dedupe (snd (chat_send_begin d env params g)) = dedupe g"
  by (simp add: chat_send_begin_def Let_def send_start_dedupe checked_frame
        split: validated.splits sum.splits option.splits)



subsection \<open>The example inputs, evaluated\<close>

lemmas example_defs =
  example_gateway_def example_store_def entry_main_def entry_discord_def entry_big_def
  example_deps_def example_send_def example_env_def example_run_def

lemma example_merge:
  "merge_attachments example_deps (example_send sk key) = Inr ''hello''"
  by (simp add: merge_attachments_def example_defs)

lemma example_completed_eval:
  "example_completed =
     example_gateway
       \<lparr>dedupe := [dedupe_key ''idem-1'' \<mapsto> terminal_entry Resolved 200 ''idem-1''],
        chatRuns := [(''idem-1'', \<lparr>cr_sessionKey = ''main'', cr_clientRunId = ''idem-1''\<rparr>)],
        runContexts := [''idem-1'' \<mapsto> ''main''],
        nextController := 1,
        disk := (disk example_gateway)(''sessions.json'' :=
                   example_store(''main'' \<mapsto> new_session_entry example_env (Some entry_main))),
        effects := [LoadSessionEntry ''main'',
                    SaveSessionStore ''sessions.json''
                      (example_store(''main'' \<mapsto> new_session_entry example_env (Some entry_main))),
                    AgentCommand (agent_opts_of example_deps example_pending)]\<rparr>"
  by (simp add: example_completed_def chat_send_def chat_send_begin_def merge_attachments_def
      session_policy_def send_start_def Let_def loadSessionEntry_def emit_def addChatRun_def
      registerAgentRunContext_def completion_save example_run_def chat_send_settled_def
      send_succeed_def send_finally_def saveSessionStore_def terminal_entry_def
      example_pending_def example_send_def example_deps_def example_env_def example_store_def
      example_gateway_def new_session_entry_def entry_main_def agent_opts_of_def)

lemmas send_eval =
  chat_send_def chat_send_begin_def merge_attachments_def normalizeAttachment_def
  session_policy_def send_start_def Let_def loadSessionEntry_def emit_def addChatRun_def
  registerAgentRunContext_def completion_save chat_send_saved_def invoke_agent_def
  chat_send_settled_def send_succeed_def send_fail_def send_finally_def saveSessionStore_def
  terminal_entry_def new_session_entry_def agent_opts_of_def executor_calls_def
  example_pending_def example_defs example_attach_send_def example_big_attachment_def

lemma example_overlap_calls: "executor_calls ''idem-1'' example_overlap = 2"
  by (simp add: example_overlap_def send_eval)

lemmas server_eval =
  example_first_run_def example_afterwards_def example_overlap_events_def idle_def
  drop_nth_def runs_in_flight_def dedupe_key_def

lemma example_schedule_replies:
  "replies (run_events example_deps (example_first_run @ example_afterwards)
              (idle example_gateway)) =
     [(Some ''idem-1'', Response True (Some (RunPayload ''idem-1'' ''ok'' None)) None
          (Some (RunMeta ''idem-1'' None))),
      (Some ''idem-1'', Response True (Some (RunPayload ''idem-1'' ''ok'' None)) None (Some Cached)),
      (Some ''idem-2'', Response False (Some (RunPayload ''idem-2'' ''error'' (Some ''Error: boom'')))
          (Some (errorShape UNAVAILABLE ''Error: boom''))
          (Some (RunMeta ''idem-2'' (Some ''boom''))))]"
  by (simp add: server_eval send_eval)

lemma example_schedule_one:
  "one_run_at_a_time example_deps ''idem-1'' (example_first_run @ example_afterwards)
     (idle example_gateway)"
  by (simp add: server_eval send_eval)

lemma example_first_run_entry:
  "dedupe (gw (run_events example_deps example_first_run (idle example_gateway)))
     (dedupe_key ''idem-1'') = Some (terminal_entry Resolved 200 ''idem-1'')"
  by (simp add: server_eval send_eval)

section \<open>Claims about chat.send\<close>

text \<open>
  C7. When a chat.send request carries attachments, they are merged into the message by
  \<^verbatim>\<open>buildMessageWithAttachments\<close> under the cap of 5,000,000 bytes. When the merge
  throws, as it does when the cap is exceeded, the request is answered INVALID_REQUEST with
  the error's text and the gateway is left exactly as it was: no session entry has been
  loaded or written, no run context, abort controller or queue entry exists for the run,
  and the executor has not been called.
\<close>

theorem chat_send_attachment_cap:
  assumes "p_attachments p = Some atts" and "atts \<noteq> []"
  shows "merge_attachments d p =
           buildMessageWithAttachments d (p_message p) (map (normalizeAttachment d) atts) 5000000
    \<and> (buildMessageWithAttachments d (p_message p) (map (normalizeAttachment d) atts) 5000000
          = Inl err \<longrightarrow>
        chat_send_begin d env (Valid p) g =
          (Done (Response False None (Some (errorShape INVALID_REQUEST err)) None), g)
        \<and> chat_send d re (Valid p) g =
            (Response False None (Some (errorShape INVALID_REQUEST err)) None, g))"
proof -
  have m: "merge_attachments d p =
      buildMessageWithAttachments d (p_message p) (map (normalizeAttachment d) atts) 5000000"
    using assms by (simp add: merge_attachments_def)
  have "chat_send_begin d env (Valid p) g =
          (Done (Response False None (Some (errorShape INVALID_REQUEST err)) None), g)
        \<and> chat_send d re (Valid p) g =
            (Response False None (Some (errorShape INVALID_REQUEST err)) None, g)"
    if "buildMessageWithAttachments d (p_message p) (map (normalizeAttachment d) atts) 5000000
          = Inl err"
    using that m by (simp add: begin_merge_fail chat_send_done)
  with m show ?thesis by blast
qed

theorem chat_send_attachment_cap_witness:
  "p_attachments example_attach_send = Some [example_big_attachment]
   \<and> [example_big_attachment] \<noteq> []
   \<and> buildMessageWithAttachments example_deps (p_message example_attach_send)
        (map (normalizeAttachment example_deps) [example_big_attachment]) 5000000 =
       Inl ''Error: attachment exceeds size limit''
   \<and> chat_send example_deps (example_run Resolved) (Valid example_attach_send) example_gateway =
       (Response False None
          (Some (errorShape INVALID_REQUEST ''Error: attachment exceeds size limit'')) None,
        example_gateway)"
  using chat_send_attachment_cap
      [of example_attach_send "[example_big_attachment]" example_deps
        "''Error: attachment exceeds size limit''" example_env example_gateway
        "example_run Resolved"]
  by (simp add: example_attach_send_def example_big_attachment_def normalizeAttachment_def
        example_deps_def example_send_def)

text \<open>
  C5, as amended. A chat.send request on a session whose send policy evaluates to deny is
  answered INVALID_REQUEST, the executor is not called and the session store is not
  written. The message is "send blocked by session policy" when the attachment merge
  succeeded (or there were no attachments); when the merge threw, the request was rejected
  before the policy was looked at and the message is the merge's error.
\<close>

theorem chat_send_policy_deny:
  assumes "session_policy d (loadSessionEntry g (p_sessionKey p)) p = ''deny''"
  shows "fst (chat_send d re (Valid p) g) =
           Response False None
             (Some (errorShape INVALID_REQUEST
                      (case merge_attachments d p of
                         Inl err \<Rightarrow> err
                       | Inr m \<Rightarrow> ''send blocked by session policy'')))
             None
    \<and> fst (chat_send_begin d (re_env re) (Valid p) g) = Done (fst (chat_send d re (Valid p) g))
    \<and> filter is_any_executor_call (effects (snd (chat_send d re (Valid p) g))) =
        filter is_any_executor_call (effects g)
    \<and> filter is_store_write (effects (snd (chat_send d re (Valid p) g))) =
        filter is_store_write (effects g)
    \<and> disk (snd (chat_send d re (Valid p) g)) = disk g"
proof (cases "merge_attachments d p")
  case (Inl err)
  then show ?thesis
    by (simp add: begin_merge_fail chat_send_done)
next
  case (Inr m)
  from begin_deny [OF Inr assms, of "re_env re"] show ?thesis
    by (simp add: Inr chat_send_done)
qed

theorem chat_send_policy_deny_witness:
  "session_policy example_deps
     (loadSessionEntry example_gateway (p_sessionKey (example_send ''discord:group:dev'' ''idem-1'')))
     (example_send ''discord:group:dev'' ''idem-1'') = ''deny''
   \<and> chat_send example_deps (example_run Resolved)
        (Valid (example_send ''discord:group:dev'' ''idem-1'')) example_gateway =
       (Response False None
          (Some (errorShape INVALID_REQUEST ''send blocked by session policy'')) None,
        example_gateway
          \<lparr>runContexts := [''idem-1'' \<mapsto> ''discord:group:dev''],
           effects := [LoadSessionEntry ''discord:group:dev'']\<rparr>)"
  using chat_send_policy_deny
      [of example_deps example_gateway "example_send ''discord:group:dev'' ''idem-1''"
        "example_run Resolved"]
  by (simp add: send_eval)

theorem chat_send_policy_deny_counterexample:
  "session_policy example_deps
     (loadSessionEntry example_gateway (p_sessionKey example_attach_send))
     example_attach_send = ''deny''
   \<and> fst (chat_send example_deps (example_run Resolved) (Valid example_attach_send)
            example_gateway) \<noteq>
       Response False None
         (Some (errorShape INVALID_REQUEST ''send blocked by session policy'')) None"
  by (simp add: send_eval)

text \<open>
  C1, as amended. A chat.send request whose attachment merge succeeds, whose session's
  send policy is not deny, and whose idempotency key has a cached terminal result is
  answered with exactly the cached ok, payload and error, flagged cached, whatever else is
  in flight; no run is started, the executor is not called and the session store is not
  written. Consequently, for requests and settlements in any order in which no two runs
  with run id \<open>k\<close> are in flight at once (runs with other ids, aborts and history reads may
  interleave freely at the awaits), the executor is called at most once for \<open>k\<close> (not at
  all when \<open>k\<close> is cached at the start), and all responses to chat.send requests with that
  key that report a run's outcome carry the same ok, payload and error.
\<close>

theorem chat_send_dedup_replay:
  fixes d :: "('cfg, 'msg, 'num) deps" and s :: "('cfg, 'msg, 'num) server"
  shows
  "(merge_attachments d p = Inr m
      \<and> session_policy d (loadSessionEntry (gw s) (p_sessionKey p)) p \<noteq> ''deny''
      \<and> dedupe (gw s) (dedupe_key (p_idempotencyKey p)) = Some cached \<longrightarrow>
      step d (Arrives (ChatSend env (Valid p))) s =
        s\<lparr>gw := registerAgentRunContext (p_idempotencyKey p) (p_sessionKey p)
                  (emit (LoadSessionEntry (p_sessionKey p)) (gw s)),
          replies := replies s @
            [(Some (p_idempotencyKey p),
              Response (ok cached) (payload cached) (error cached) (Some Cached))]\<rparr>
      \<and> filter is_any_executor_call (effects (gw (step d (Arrives (ChatSend env (Valid p))) s))) =
          filter is_any_executor_call (effects (gw s))
      \<and> filter is_store_write (effects (gw (step d (Arrives (ChatSend env (Valid p))) s))) =
          filter is_store_write (effects (gw s))
      \<and> disk (gw (step d (Arrives (ChatSend env (Valid p))) s)) = disk (gw s))
   \<and> (one_run_at_a_time d k es (idle g :: ('cfg, 'msg, 'num) server) \<longrightarrow>
        executor_calls k (gw (run_events d es (idle g))) \<le> executor_calls k g + 1
        \<and> (dedupe g (dedupe_key k) \<noteq> None \<longrightarrow>
             executor_calls k (gw (run_events d es (idle g))) = executor_calls k g)
        \<and> (\<forall>x \<in> set (replies (run_events d es (idle g))).
             \<forall>y \<in> set (replies (run_events d es (idle g))).
               reports k x \<and> reports k y \<longrightarrow> outcome_of (snd x) = outcome_of (snd y)))"
proof (intro conjI impI)
  assume a: "merge_attachments d p = Inr m
      \<and> session_policy d (loadSessionEntry (gw s) (p_sessionKey p)) p \<noteq> ''deny''
      \<and> dedupe (gw s) (dedupe_key (p_idempotencyKey p)) = Some cached"
  then have eq: "step d (Arrives (ChatSend env (Valid p))) s =
        s\<lparr>gw := registerAgentRunContext (p_idempotencyKey p) (p_sessionKey p)
                  (emit (LoadSessionEntry (p_sessionKey p)) (gw s)),
          replies := replies s @
            [(Some (p_idempotencyKey p),
              Response (ok cached) (payload cached) (error cached) (Some Cached))]\<rparr>"
    by (intro cached_entered) simp_all
  show "step d (Arrives (ChatSend env (Valid p))) s =
        s\<lparr>gw := registerAgentRunContext (p_idempotencyKey p) (p_sessionKey p)
                  (emit (LoadSessionEntry (p_sessionKey p)) (gw s)),
          replies := replies s @
            [(Some (p_idempotencyKey p),
              Response (ok cached) (payload cached) (error cached) (Some Cached))]\<rparr>"
    by (rule eq)
  show "filter is_any_executor_call (effects (gw (step d (Arrives (ChatSend env (Valid p))) s))) =
          filter is_any_executor_call (effects (gw s))"
    unfolding eq by (simp add: checked_frame)
  show "filter is_store_write (effects (gw (step d (Arrives (ChatSend env (Valid p))) s))) =
          filter is_store_write (effects (gw s))"
    unfolding eq by (simp add: checked_frame)
  show "disk (gw (step d (Arrives (ChatSend env (Valid p))) s)) = disk (gw s)"
    unfolding eq by (simp add: checked_frame)
next
  let ?final = "run_events d es (idle g :: ('cfg, 'msg, 'num) server)"
  assume one: "one_run_at_a_time d k es (idle g :: ('cfg, 'msg, 'num) server)"
  from run_budget [OF one]
  have "call_budget k ?final \<le>
      executor_calls k g + (if dedupe g (dedupe_key k) = None then 1 else 0)"
    by (simp only: idle_budget)
  moreover have "executor_calls k (gw ?final) \<le> call_budget k ?final"
    by (simp add: call_budget_def)
  ultimately have b: "executor_calls k (gw ?final) \<le>
      executor_calls k g + (if dedupe g (dedupe_key k) = None then 1 else 0)"
    by (rule order_trans [rotated])
  then show "executor_calls k (gw ?final) \<le> executor_calls k g + 1"
    by (simp split: if_splits)
  from run_calls_mono [of k "idle g :: ('cfg, 'msg, 'num) server" d es]
  have "executor_calls k g \<le> executor_calls k (gw ?final)"
    by (simp add: idle_def)
  with b show "dedupe g (dedupe_key k) \<noteq> None \<Longrightarrow> executor_calls k (gw ?final) = executor_calls k g"
    by auto
  from run_follow_cache [OF one idle_follow_cache]
  have "replies_follow_cache k ?final" .
  then show "\<forall>x \<in> set (replies ?final). \<forall>y \<in> set (replies ?final).
      reports k x \<and> reports k y \<longrightarrow> outcome_of (snd x) = outcome_of (snd y)"
    by (blast intro: follow_cache_agree)
qed

theorem chat_send_dedup_replay_witness:
  "merge_attachments example_deps (example_send ''main'' ''idem-1'') = Inr ''hello''
   \<and> session_policy example_deps
        (loadSessionEntry example_completed (p_sessionKey (example_send ''main'' ''idem-1'')))
        (example_send ''main'' ''idem-1'') \<noteq> ''deny''
   \<and> dedupe example_completed (dedupe_key (p_idempotencyKey (example_send ''main'' ''idem-1''))) =
       Some (terminal_entry Resolved 200 ''idem-1'')
   \<and> replies (step example_deps
                (Arrives (ChatSend example_env (Valid (example_send ''main'' ''idem-1''))))
                (idle example_completed)) =
       [(Some ''idem-1'',
         Response True (Some (RunPayload ''idem-1'' ''ok'' None)) None (Some Cached))]
   \<and> suspended (step example_deps
                (Arrives (ChatSend example_env (Valid (example_send ''main'' ''idem-1''))))
                (idle example_completed)) = []
   \<and> one_run_at_a_time example_deps ''idem-1'' (example_first_run @ example_afterwards)
        (idle example_gateway)
   \<and> executor_calls ''idem-1''
        (gw (run_events example_deps (example_first_run @ example_afterwards)
               (idle example_gateway))) \<le> 1
   \<and> replies (run_events example_deps (example_first_run @ example_afterwards)
                (idle example_gateway)) =
       [(Some ''idem-1'', Response True (Some (RunPayload ''idem-1'' ''ok'' None)) None
            (Some (RunMeta ''idem-1'' None))),
        (Some ''idem-1'',
         Response True (Some (RunPayload ''idem-1'' ''ok'' None)) None (Some Cached)),
        (Some ''idem-2'',
         Response False (Some (RunPayload ''idem-2'' ''error'' (Some ''Error: boom'')))
            (Some (errorShape UNAVAILABLE ''Error: boom''))
            (Some (RunMeta ''idem-2'' (Some ''boom''))))]
   \<and> outcome_of (Response True (Some (RunPayload ''idem-1'' ''ok'' None)) None
                   (Some (RunMeta ''idem-1'' None)) :: string response) =
       outcome_of (Response True (Some (RunPayload ''idem-1'' ''ok'' None)) None (Some Cached))
   \<and> dedupe example_completed (dedupe_key ''idem-1'') \<noteq> None
   \<and> executor_calls ''idem-1''
        (gw (run_events example_deps example_afterwards (idle example_completed))) =
       executor_calls ''idem-1'' example_completed"
proof -
  let ?p = "example_send ''main'' ''idem-1''"
  let ?es = "example_first_run @ example_afterwards"
  let ?x1 = "Response True (Some (RunPayload ''idem-1'' ''ok'' None)) None
          (Some (RunMeta ''idem-1'' None)) :: string response"
  let ?x2 = "Response True (Some (RunPayload ''idem-1'' ''ok'' None)) None (Some Cached)
          :: string response"
  let ?final = "run_events example_deps ?es (idle example_gateway)"
  have h1: "merge_attachments example_deps ?p = Inr ''hello''"
    by (rule example_merge)
  have h2: "session_policy example_deps (loadSessionEntry example_completed (p_sessionKey ?p)) ?p
      \<noteq> ''deny''"
    by (simp add: example_completed_eval session_policy_def loadSessionEntry_def
          new_session_entry_def example_defs)
  have h3: "dedupe example_completed (dedupe_key (p_idempotencyKey ?p)) =
      Some (terminal_entry Resolved 200 ''idem-1'')"
    by (simp add: example_completed_eval example_send_def)
  note t1 = chat_send_dedup_replay
      [where d = example_deps and p = ?p and m = "''hello''"
         and s = "idle example_completed"
         and cached = "terminal_entry Resolved 200 ''idem-1''" and env = example_env
         and k = "''idem-1''" and es = example_afterwards and g = example_completed]
  from t1 h1 h2 h3
  have a: "replies (step example_deps (Arrives (ChatSend example_env (Valid ?p)))
                (idle example_completed)) = [(Some ''idem-1'', ?x2)]"
    "suspended (step example_deps (Arrives (ChatSend example_env (Valid ?p)))
                (idle example_completed)) = []"
    by (simp_all add: idle_def terminal_entry_def example_send_def)
  have one': "one_run_at_a_time example_deps ''idem-1'' example_afterwards
      (idle example_completed)"
    unfolding example_completed_eval by (simp add: server_eval send_eval)
  from h3 have cached: "dedupe example_completed (dedupe_key ''idem-1'') \<noteq> None"
    by (simp add: example_send_def)
  from t1 one' cached
  have same: "executor_calls ''idem-1''
        (gw (run_events example_deps example_afterwards (idle example_completed))) =
       executor_calls ''idem-1'' example_completed"
    by blast
  note t2 = chat_send_dedup_replay
      [where d = example_deps and p = ?p and m = "''hello''"
         and s = "idle example_completed"
         and cached = "terminal_entry Resolved 200 ''idem-1''" and env = example_env
         and k = "''idem-1''" and es = ?es and g = example_gateway]
  have one: "one_run_at_a_time example_deps ''idem-1'' ?es (idle example_gateway)"
    by (rule example_schedule_one)
  from t2 one have b: "executor_calls ''idem-1'' (gw ?final) \<le> 1"
    by (simp add: executor_calls_def example_gateway_def)
  have rs: "replies ?final =
      [(Some ''idem-1'', ?x1), (Some ''idem-1'', ?x2),
       (Some ''idem-2'',
         Response False (Some (RunPayload ''idem-2'' ''error'' (Some ''Error: boom'')))
            (Some (errorShape UNAVAILABLE ''Error: boom''))
            (Some (RunMeta ''idem-2'' (Some ''boom''))))]"
    by (rule example_schedule_replies)
  have mem: "(Some ''idem-1'', ?x1) \<in> set (replies ?final)"
    "(Some ''idem-1'', ?x2) \<in> set (replies ?final)"
    unfolding rs by simp_all
  have "reports ''idem-1'' (Some ''idem-1'', ?x1)" "reports ''idem-1'' (Some ''idem-1'', ?x2)"
    by simp_all
  with t2 one mem have c: "outcome_of (snd (Some ''idem-1'', ?x1)) =
      outcome_of (snd (Some ''idem-1'', ?x2))"
    by blast
  from h1 h2 h3 a one b rs c cached same show ?thesis by simp
qed

theorem chat_send_dedup_replay_counterexample:
  "dedupe example_completed (dedupe_key ''idem-1'') =
     Some \<lparr>ts = 200, ok = True, payload = Some (RunPayload ''idem-1'' ''ok'' None), error = None\<rparr>
   \<and> fst (chat_send example_deps (example_run Resolved)
            (Valid (example_send ''discord:group:dev'' ''idem-1'')) example_completed) =
       Response False None
         (Some (errorShape INVALID_REQUEST ''send blocked by session policy'')) None
   \<and> executor_calls ''idem-1'' example_overlap = 2"
proof (intro conjI)
  show "dedupe example_completed (dedupe_key ''idem-1'') =
     Some \<lparr>ts = 200, ok = True, payload = Some (RunPayload ''idem-1'' ''ok'' None), error = None\<rparr>"
    by (simp add: example_completed_eval terminal_entry_def)
  show "fst (chat_send example_deps (example_run Resolved)
            (Valid (example_send ''discord:group:dev'' ''idem-1'')) example_completed) =
       Response False None
         (Some (errorShape INVALID_REQUEST ''send blocked by session policy'')) None"
    by (simp add: example_completed_eval send_eval)
  show "executor_calls ''idem-1'' example_overlap = 2"
    by (rule example_overlap_calls)
qed



lemma chat_send_started:
  assumes "merge_attachments d p = Inr m"
    and "session_policy d (loadSessionEntry g (p_sessionKey p)) p \<noteq> ''deny''"
    and "dedupe g (dedupe_key (p_idempotencyKey p)) = None"
    and "configStorePath g \<noteq> []"
  shows "\<exists>pd g1. chat_send_begin d (re_env re) (Valid p) g = (AwaitSave pd, g1)
      \<and> pd_params pd = p \<and> dedupe g1 = dedupe g
      \<and> chat_send d re (Valid p) g =
          chat_send_settled
            (case re_save re of Resolved \<Rightarrow> re_agent re | Rejected err \<Rightarrow> Rejected err)
            (re_doneAt re) pd
            (case re_save re of
               Resolved \<Rightarrow> emit (AgentCommand (agent_opts_of d pd))
                             (saveSessionStore (pd_storePath pd) (pd_store pd) g1)
             | Rejected err \<Rightarrow> g1)"
proof -
  let ?ld = "loadSessionEntry g (p_sessionKey p)"
  let ?gc = "registerAgentRunContext (p_idempotencyKey p) (p_sessionKey p)
               (emit (LoadSessionEntry (p_sessionKey p)) g)"
  let ?start = "send_start d ?ld p m (new_session_entry (re_env re) (ld_entry ?ld))
        (resolveAgentTimeoutMs d (config g) (p_timeoutMs p)) ?gc"
  have b: "chat_send_begin d (re_env re) (Valid p) g = ?start"
    by (rule begin_start [OF assms(1-3)])
  have "ld_store ?ld = Some (disk g (configStorePath g))" "ld_storePath ?ld \<noteq> []"
    using assms(4) by (simp_all add: loadSessionEntry_def)
  from send_start_save [OF this, of d p m "new_session_entry (re_env re) (ld_entry ?ld)"
      "resolveAgentTimeoutMs d (config g) (p_timeoutMs p)" ?gc]
  obtain pd g1 where start: "?start = (AwaitSave pd, g1)"
    and pd: "pd_params pd = p" and g1: "dedupe g1 = dedupe g"
    by (auto simp: checked_frame)
  have "chat_send d re (Valid p) g = run_to_completion d re (AwaitSave pd) g1"
    by (simp add: chat_send_def b start)
  then have "chat_send d re (Valid p) g =
          chat_send_settled
            (case re_save re of Resolved \<Rightarrow> re_agent re | Rejected err \<Rightarrow> Rejected err)
            (re_doneAt re) pd
            (case re_save re of
               Resolved \<Rightarrow> emit (AgentCommand (agent_opts_of d pd))
                             (saveSessionStore (pd_storePath pd) (pd_store pd) g1)
             | Rejected err \<Rightarrow> g1)"
    by (cases "re_save re") (simp_all add: completion_save)
  with b start pd g1 show ?thesis by auto
qed

lemma begin_cached_done:
  assumes "dedupe g (dedupe_key (p_idempotencyKey p)) = Some c"
  shows "\<exists>r. fst (chat_send_begin d env (Valid p) g) = Done r"
proof (cases "merge_attachments d p")
  case (Inl err)
  then show ?thesis by (simp add: begin_merge_fail)
next
  case (Inr m)
  show ?thesis
  proof (cases "session_policy d (loadSessionEntry g (p_sessionKey p)) p = ''deny''")
    case True
    then show ?thesis by (simp add: begin_deny [OF Inr])
  next
    case False
    then show ?thesis by (simp add: begin_cached [OF Inr False assms])
  qed
qed

lemma chat_send_cached_dedupe:
  "dedupe g (dedupe_key (p_idempotencyKey p)) = Some c \<Longrightarrow>
   dedupe (snd (chat_send d re (Valid p) g)) = dedupe g"
  using chat_send_outcome [of d re "Valid p" g "p_idempotencyKey p"] by auto

text \<open>
  C10, as amended. The handler writes the dedup cache only when a run settles. Up to its first
  suspension it never writes the cache, whatever the request; the completion of the save
  writes nothing; the settling of the executor's promise (or a failed save) writes one
  entry under the run's key: \<^verbatim>\<open>{ok: true, payload: {runId, status: "ok"}}\<close> when the
  promise resolved, \<^verbatim>\<open>{ok: false, payload: {runId, status: "error", summary}, error}\<close>
  with an UNAVAILABLE error when something threw, and the response carries the same payload
  and error. So a request that starts a run changes the cache by exactly that one entry,
  and a request whose key is already cached does not start a run and leaves the cache as
  it is. Provided no two runs with the same run id are in flight at once, the entry of a
  run id, once written, is never overwritten, whatever arrives or settles afterwards; and
  an entry that was not in the cache at the start is the terminal entry of a run.
\<close>

theorem dedupe_written_once_at_terminal:
  "dedupe (snd (chat_send_begin d env params g)) = dedupe g
   \<and> dedupe (snd (chat_send_saved d Resolved t pd g)) = dedupe g
   \<and> chat_send_saved d (Rejected err) t pd g =
       (Done (fst (chat_send_settled (Rejected err) t pd g)),
        snd (chat_send_settled (Rejected err) t pd g))
   \<and> dedupe (snd (chat_send_settled Resolved t pd g)) =
       (dedupe g)(dedupe_key (p_idempotencyKey (pd_params pd)) \<mapsto>
          \<lparr>ts = t, ok = True,
           payload = Some (RunPayload (p_idempotencyKey (pd_params pd)) ''ok'' None),
           error = None\<rparr>)
   \<and> fst (chat_send_settled Resolved t pd g) =
       Response True (Some (RunPayload (p_idempotencyKey (pd_params pd)) ''ok'' None)) None
         (Some (RunMeta (p_idempotencyKey (pd_params pd)) None))
   \<and> dedupe (snd (chat_send_settled (Rejected err) t pd g)) =
       (dedupe g)(dedupe_key (p_idempotencyKey (pd_params pd)) \<mapsto>
          \<lparr>ts = t, ok = False,
           payload = Some (RunPayload (p_idempotencyKey (pd_params pd)) ''error''
                             (Some (err_String err))),
           error = Some (errorShape UNAVAILABLE (err_String err))\<rparr>)
   \<and> fst (chat_send_settled (Rejected err) t pd g) =
       Response False
         (Some (RunPayload (p_idempotencyKey (pd_params pd)) ''error'' (Some (err_String err))))
         (Some (errorShape UNAVAILABLE (err_String err)))
         (Some (RunMeta (p_idempotencyKey (pd_params pd)) (Some (err_formatForLog err))))
   \<and> ((\<exists>m. merge_attachments d p = Inr m)
        \<and> session_policy d (loadSessionEntry g (p_sessionKey p)) p \<noteq> ''deny''
        \<and> dedupe g (dedupe_key (p_idempotencyKey p)) = None
        \<and> configStorePath g \<noteq> [] \<longrightarrow>
        (\<exists>pd'. fst (chat_send_begin d (re_env re) (Valid p) g) = AwaitSave pd'
               \<and> pd_params pd' = p)
        \<and> dedupe (snd (chat_send d re (Valid p) g)) =
            (dedupe g)(dedupe_key (p_idempotencyKey p) \<mapsto>
               terminal_entry
                 (case re_save re of Resolved \<Rightarrow> re_agent re | Rejected e \<Rightarrow> Rejected e)
                 (re_doneAt re) (p_idempotencyKey p)))
   \<and> (dedupe g (dedupe_key (p_idempotencyKey p)) = Some c \<longrightarrow>
        (\<exists>r. fst (chat_send_begin d env (Valid p) g) = Done r)
        \<and> dedupe (snd (chat_send d re (Valid p) g)) = dedupe g)
   \<and> (one_run_at_a_time d k (es @ es') (idle g)
        \<and> dedupe (gw (run_events d es (idle g))) (dedupe_key k) = Some c' \<longrightarrow>
        dedupe (gw (run_events d (es @ es') (idle g))) (dedupe_key k) = Some c')
   \<and> (dedupe (gw (run_events d es (idle g))) (dedupe_key k) = dedupe g (dedupe_key k)
        \<or> (\<exists>out t'. dedupe (gw (run_events d es (idle g))) (dedupe_key k) =
                       Some (terminal_entry out t' k)))"
proof (intro conjI)
  show "dedupe (snd (chat_send_begin d env params g)) = dedupe g"
    by (rule chat_send_begin_dedupe)
  show "dedupe (snd (chat_send_saved d Resolved t pd g)) = dedupe g"
    by (simp add: saved_resolved emit_def saveSessionStore_def)
  show "chat_send_saved d (Rejected err) t pd g =
       (Done (fst (chat_send_settled (Rejected err) t pd g)),
        snd (chat_send_settled (Rejected err) t pd g))"
    by (rule saved_rejected)
  show "dedupe (snd (chat_send_settled Resolved t pd g)) =
       (dedupe g)(dedupe_key (p_idempotencyKey (pd_params pd)) \<mapsto>
          \<lparr>ts = t, ok = True,
           payload = Some (RunPayload (p_idempotencyKey (pd_params pd)) ''ok'' None),
           error = None\<rparr>)"
    by (simp add: settled_dedupe terminal_entry_def)
  show "fst (chat_send_settled Resolved t pd g) =
       Response True (Some (RunPayload (p_idempotencyKey (pd_params pd)) ''ok'' None)) None
         (Some (RunMeta (p_idempotencyKey (pd_params pd)) None))"
    by (simp add: chat_send_settled_def send_succeed_def Let_def)
  show "dedupe (snd (chat_send_settled (Rejected err) t pd g)) =
       (dedupe g)(dedupe_key (p_idempotencyKey (pd_params pd)) \<mapsto>
          \<lparr>ts = t, ok = False,
           payload = Some (RunPayload (p_idempotencyKey (pd_params pd)) ''error''
                             (Some (err_String err))),
           error = Some (errorShape UNAVAILABLE (err_String err))\<rparr>)"
    by (simp add: settled_dedupe terminal_entry_def)
  show "fst (chat_send_settled (Rejected err) t pd g) =
       Response False
         (Some (RunPayload (p_idempotencyKey (pd_params pd)) ''error'' (Some (err_String err))))
         (Some (errorShape UNAVAILABLE (err_String err)))
         (Some (RunMeta (p_idempotencyKey (pd_params pd)) (Some (err_formatForLog err))))"
    by (simp add: chat_send_settled_def send_fail_def Let_def)
  show "(\<exists>m. merge_attachments d p = Inr m)
        \<and> session_policy d (loadSessionEntry g (p_sessionKey p)) p \<noteq> ''deny''
        \<and> dedupe g (dedupe_key (p_idempotencyKey p)) = None
        \<and> configStorePath g \<noteq> [] \<longrightarrow>
        (\<exists>pd'. fst (chat_send_begin d (re_env re) (Valid p) g) = AwaitSave pd'
               \<and> pd_params pd' = p)
        \<and> dedupe (snd (chat_send d re (Valid p) g)) =
            (dedupe g)(dedupe_key (p_idempotencyKey p) \<mapsto>
               terminal_entry
                 (case re_save re of Resolved \<Rightarrow> re_agent re | Rejected e \<Rightarrow> Rejected e)
                 (re_doneAt re) (p_idempotencyKey p))"
  proof
    assume a: "(\<exists>m. merge_attachments d p = Inr m)
        \<and> session_policy d (loadSessionEntry g (p_sessionKey p)) p \<noteq> ''deny''
        \<and> dedupe g (dedupe_key (p_idempotencyKey p)) = None
        \<and> configStorePath g \<noteq> []"
    then obtain m where m: "merge_attachments d p = Inr m" by blast
    from a have rest: "session_policy d (loadSessionEntry g (p_sessionKey p)) p \<noteq> ''deny''"
      "dedupe g (dedupe_key (p_idempotencyKey p)) = None" "configStorePath g \<noteq> []"
      by simp_all
    from chat_send_started [OF m rest, of re]
    obtain pd' g1 where "chat_send_begin d (re_env re) (Valid p) g = (AwaitSave pd', g1)"
      "pd_params pd' = p" "dedupe g1 = dedupe g"
      "chat_send d re (Valid p) g =
          chat_send_settled
            (case re_save re of Resolved \<Rightarrow> re_agent re | Rejected err \<Rightarrow> Rejected err)
            (re_doneAt re) pd'
            (case re_save re of
               Resolved \<Rightarrow> emit (AgentCommand (agent_opts_of d pd'))
                             (saveSessionStore (pd_storePath pd') (pd_store pd') g1)
             | Rejected err \<Rightarrow> g1)"
      by blast
    then show "(\<exists>pd'. fst (chat_send_begin d (re_env re) (Valid p) g) = AwaitSave pd'
               \<and> pd_params pd' = p)
        \<and> dedupe (snd (chat_send d re (Valid p) g)) =
            (dedupe g)(dedupe_key (p_idempotencyKey p) \<mapsto>
               terminal_entry
                 (case re_save re of Resolved \<Rightarrow> re_agent re | Rejected e \<Rightarrow> Rejected e)
                 (re_doneAt re) (p_idempotencyKey p))"
      by (cases "re_save re") (simp_all add: settled_dedupe emit_def saveSessionStore_def)
  qed
  show "dedupe g (dedupe_key (p_idempotencyKey p)) = Some c \<longrightarrow>
        (\<exists>r. fst (chat_send_begin d env (Valid p) g) = Done r)
        \<and> dedupe (snd (chat_send d re (Valid p) g)) = dedupe g"
    by (simp add: begin_cached_done chat_send_cached_dedupe)
  show "one_run_at_a_time d k (es @ es') (idle g)
        \<and> dedupe (gw (run_events d es (idle g))) (dedupe_key k) = Some c' \<longrightarrow>
        dedupe (gw (run_events d (es @ es') (idle g))) (dedupe_key k) = Some c'"
  proof
    assume a: "one_run_at_a_time d k (es @ es') (idle g)
        \<and> dedupe (gw (run_events d es (idle g))) (dedupe_key k) = Some c'"
    then have "one_run_at_a_time d k es (idle g)"
      by (blast dest: one_run_append)
    then have "replies_follow_cache k (run_events d es (idle g))"
      by (rule run_follow_cache) (rule idle_follow_cache)
    with a have "runs_in_flight k (run_events d es (idle g)) = 0"
      by (simp add: replies_follow_cache_def)
    with a run_keeps_entry [of "run_events d es (idle g)" k c' d es']
    show "dedupe (gw (run_events d (es @ es') (idle g))) (dedupe_key k) = Some c'"
      by (simp add: run_events_append)
  qed
  show "dedupe (gw (run_events d es (idle g))) (dedupe_key k) = dedupe g (dedupe_key k)
        \<or> (\<exists>out t'. dedupe (gw (run_events d es (idle g))) (dedupe_key k) =
                       Some (terminal_entry out t' k))"
    using run_entry_origin [of d es "idle g" k] by (simp add: idle_def)
qed

theorem dedupe_written_once_at_terminal_witness:
  "(\<exists>m. merge_attachments example_deps (example_send ''main'' ''idem-1'') = Inr m)
   \<and> session_policy example_deps
        (loadSessionEntry example_gateway (p_sessionKey (example_send ''main'' ''idem-1'')))
        (example_send ''main'' ''idem-1'') \<noteq> ''deny''
   \<and> dedupe example_gateway (dedupe_key (p_idempotencyKey (example_send ''main'' ''idem-1''))) = None
   \<and> configStorePath example_gateway \<noteq> []
   \<and> dedupe (snd (chat_send example_deps (example_run Resolved)
                    (Valid (example_send ''main'' ''idem-1'')) example_gateway)) =
       [dedupe_key ''idem-1'' \<mapsto>
          \<lparr>ts = 200, ok = True, payload = Some (RunPayload ''idem-1'' ''ok'' None),
           error = None\<rparr>]
   \<and> dedupe example_completed (dedupe_key (p_idempotencyKey (example_send ''main'' ''idem-1''))) =
       Some (terminal_entry Resolved 200 ''idem-1'')
   \<and> dedupe (snd (chat_send example_deps (example_run Resolved)
                    (Valid (example_send ''main'' ''idem-1'')) example_completed)) =
       dedupe example_completed
   \<and> one_run_at_a_time example_deps ''idem-1'' (example_first_run @ example_afterwards)
        (idle example_gateway)
   \<and> dedupe (gw (run_events example_deps example_first_run (idle example_gateway)))
        (dedupe_key ''idem-1'') = Some (terminal_entry Resolved 200 ''idem-1'')
   \<and> dedupe (gw (run_events example_deps (example_first_run @ example_afterwards)
                    (idle example_gateway)))
        (dedupe_key ''idem-1'') = Some (terminal_entry Resolved 200 ''idem-1'')"
proof -
  let ?p = "example_send ''main'' ''idem-1''"
  have h1: "\<exists>m. merge_attachments example_deps ?p = Inr m"
    by (simp add: example_merge)
  have h2: "session_policy example_deps (loadSessionEntry example_gateway (p_sessionKey ?p)) ?p
      \<noteq> ''deny''"
    by (simp add: session_policy_def loadSessionEntry_def example_defs)
  have h3: "dedupe example_gateway (dedupe_key (p_idempotencyKey ?p)) = None"
    "configStorePath example_gateway \<noteq> []"
    by (simp_all add: example_defs)
  have h4: "dedupe example_completed (dedupe_key (p_idempotencyKey ?p)) =
      Some (terminal_entry Resolved 200 ''idem-1'')"
    by (simp add: example_completed_eval example_send_def)
  have h5: "one_run_at_a_time example_deps ''idem-1'' (example_first_run @ example_afterwards)
      (idle example_gateway)"
    by (rule example_schedule_one)
  have h6: "dedupe (gw (run_events example_deps example_first_run (idle example_gateway)))
      (dedupe_key ''idem-1'') = Some (terminal_entry Resolved 200 ''idem-1'')"
    by (rule example_first_run_entry)
  note t1 = dedupe_written_once_at_terminal
      [where d = example_deps and env = example_env and params = "Valid ?p"
         and g = example_gateway and t = 200 and pd = example_pending
         and err = "\<lparr>err_String = ''Error: boom'', err_formatForLog = ''boom''\<rparr>"
         and p = ?p and re = "example_run Resolved"
         and c = "terminal_entry Resolved 200 ''idem-1''" and k = "''idem-1''"
         and es = example_first_run and es' = example_afterwards
         and c' = "terminal_entry Resolved 200 ''idem-1''"]
  from t1 h1 h2 h3
  have a: "dedupe (snd (chat_send example_deps (example_run Resolved) (Valid ?p) example_gateway)) =
       [dedupe_key ''idem-1'' \<mapsto>
          \<lparr>ts = 200, ok = True, payload = Some (RunPayload ''idem-1'' ''ok'' None),
           error = None\<rparr>]"
    by (simp add: terminal_entry_def example_defs)
  from t1 h5 h6
  have c: "dedupe (gw (run_events example_deps (example_first_run @ example_afterwards)
                    (idle example_gateway)))
        (dedupe_key ''idem-1'') = Some (terminal_entry Resolved 200 ''idem-1'')"
    by blast
  from dedupe_written_once_at_terminal
      [where d = example_deps and env = example_env and params = "Valid ?p"
         and g = example_completed and t = 200 and pd = example_pending
         and err = "\<lparr>err_String = ''Error: boom'', err_formatForLog = ''boom''\<rparr>"
         and p = ?p and re = "example_run Resolved"
         and c = "terminal_entry Resolved 200 ''idem-1''" and k = "''idem-1''"
         and es = example_first_run and es' = example_afterwards
         and c' = "terminal_entry Resolved 200 ''idem-1''"] h4
  have b: "dedupe (snd (chat_send example_deps (example_run Resolved) (Valid ?p)
                          example_completed)) = dedupe example_completed"
    by simp
  from h1 h2 h3 h4 a b h5 h6 c show ?thesis by blast
qed

theorem dedupe_written_once_at_terminal_counterexample:
  "dedupe (gw (run_events example_deps example_overlap_events (idle example_gateway)))
     (dedupe_key ''idem-1'') =
     Some \<lparr>ts = 200, ok = True, payload = Some (RunPayload ''idem-1'' ''ok'' None), error = None\<rparr>
   \<and> dedupe (gw (run_events example_deps
                    (example_overlap_events @
                       [AgentSettles 0
                          (Rejected \<lparr>err_String = ''Error: boom'', err_formatForLog = ''boom''\<rparr>)
                          300])
                    (idle example_gateway)))
        (dedupe_key ''idem-1'') =
       Some \<lparr>ts = 300, ok = False,
             payload = Some (RunPayload ''idem-1'' ''error'' (Some ''Error: boom'')),
             error = Some (errorShape UNAVAILABLE ''Error: boom'')\<rparr>
   \<and> \<not> one_run_at_a_time example_deps ''idem-1'' example_overlap_events (idle example_gateway)"
  by (simp add: server_eval send_eval)

end
